theory Spec2Isabelle
  imports Main "HOL-Library.Word"
begin

section \<open>Data model of widget.c\<close>

text \<open>
  The embedding follows \<^verbatim>\<open>widget.c\<close>. Objects reached through C pointers
  (\<^verbatim>\<open>widget_t *\<close>, \<^verbatim>\<open>wibox_t *\<close>) live in stores indexed by
  addresses; a pointer that may be \<^verbatim>\<open>NULL\<close> is an \<open>option\<close>. The
  declarations of the structures are in headers that are not part of
  \<^verbatim>\<open>widget.c\<close>: each record below has the fields that
  \<^verbatim>\<open>widget.c\<close> reads or writes, under the names it uses.
\<close>

type_synonym widget_ptr = nat
type_synonym wibox_ptr = nat
type_synonym pixmap_t = nat
type_synonym image_t = nat

datatype orientation_t = North | South | East

text \<open>
  Modelled from the spec: the colour of a drawing context (the declaration of
  \<^verbatim>\<open>xcolor_t\<close> is missing); \<^verbatim>\<open>widget.c\<close> reads its 16-bit
  \<open>alpha\<close> only.
\<close>

record xcolor_t =
  pixel :: nat
  alpha :: "16 word"

text \<open>
  Modelled from the spec: the drawing context (the declaration of
  \<^verbatim>\<open>draw_context_t\<close> is missing): pixmap, dimensions and background colour.
\<close>

record draw_context_t =
  pixmap :: pixmap_t
  phys_screen :: nat
  width :: int
  height :: int
  bg :: xcolor_t

text \<open>
  Modelled from the spec: the declaration of \<^verbatim>\<open>area_t\<close> is missing; the
  geometry record has the integer fields \<open>x\<close>, \<open>y\<close>, \<open>width\<close>,
  \<open>height\<close>.
\<close>

record area_t =
  x :: int
  y :: int
  width :: int
  height :: int

datatype widget_constructor_t =
  widget_textbox | widget_progressbar | widget_graph | widget_systray | widget_imagebox

text \<open>
  The values of the scripting engine that \<^verbatim>\<open>widget.c\<close> tells apart: nil,
  booleans, numbers, strings, functions (by identity), widget and wibox userdata (by
  address) and tables, a table being the list of its key/value pairs in the order in which
  \<^verbatim>\<open>luaA_next\<close> visits them.
\<close>

datatype lua_value =
    LNil
  | LBoolean bool
  | LNumber int
  | LString string
  | LFunction nat
  | LWidget widget_ptr
  | LWibox wibox_ptr
  | LTable "(lua_value \<times> lua_value) list"

type_synonym lua_table = "(lua_value \<times> lua_value) list"

text \<open>
  Modelled from the spec: the declaration of \<^verbatim>\<open>widget_t\<close> is missing. The
  fields are the type tag, the visibility flag, the two hook references and the value
  that the \<^verbatim>\<open>extents\<close> capability of the widget returns.
\<close>

record widget_t =
  type :: "widget_constructor_t option"
  isvisible :: bool
  mouse_enter :: "lua_value option"
  mouse_leave :: "lua_value option"
  extents :: area_t

record widget_node_t =
  widget :: widget_ptr
  geometry :: area_t

text \<open>
  Modelled from the spec: the declaration of \<^verbatim>\<open>wibox_t\<close> is missing. The
  field \<open>widgets_table\<close> is the reference to the declared widget table
  (\<open>None\<close> for \<^verbatim>\<open>NULL\<close>); \<open>screen\<close> is the index that
  \<^verbatim>\<open>screen_array_indexof\<close> computes for \<^verbatim>\<open>wibox->screen\<close>.
\<close>

record wibox_t =
  geometry :: area_t
  orientation :: orientation_t
  ctx :: draw_context_t
  pixmap :: pixmap_t
  gc :: nat
  screen :: int
  widgets :: "widget_node_t list"
  need_update :: bool
  bg_image :: "image_t option"
  widgets_table :: "lua_table option"

record client_t =
  titlebar :: "wibox_ptr option"

record xcb_screen_t =
  root :: nat
  width_in_pixels :: int
  height_in_pixels :: int

text \<open>
  The reply to the query of the root background pixmap: \<open>value_len\<close> and the
  pixmap that \<^verbatim>\<open>xcb_get_property_value\<close> points to (\<open>None\<close> for a
  \<^verbatim>\<open>NULL\<close> pointer).
\<close>

record xcb_get_property_reply_t =
  value_len :: nat
  property_value :: "pixmap_t option"

datatype angle_t = Plus_M_PI_2 | Minus_M_PI_2

text \<open>
  The calls that leave \<^verbatim>\<open>widget.c\<close>, with their arguments, in the order in
  which they are made: the policy evaluator, the display back end, the drawing
  operations, the draw capability of a widget, warnings, and the release and acquisition
  of item references.
\<close>

datatype event =
    Lua_call nat "lua_value list"
  | Xcb_get_property nat
  | Draw_rotate pixmap_t pixmap_t int int int int angle_t int int
  | Xcb_copy_area pixmap_t pixmap_t nat int int int int int int
  | Draw_image int int image_t
  | Draw_rectangle area_t bool xcolor_t
  | Widget_draw widget_ptr draw_context_t area_t wibox_ptr
  | Lua_warn "string option"
  | Object_unref_item widget_ptr "lua_value option"
  | Object_ref_item widget_ptr lua_value

text \<open>
  The state: the two stores, \<^verbatim>\<open>globalconf.wiboxes\<close> and
  \<^verbatim>\<open>globalconf.clients\<close>, the stack of \<^verbatim>\<open>globalconf.L\<close> (top
  first), the environment (what a function of the scripting engine returns on given
  arguments, \<open>None\<close> when it fails; the screens; the root pixmap property of a root
  window), the next free widget address and the calls made so far.
\<close>

record state =
  widget_heap :: "widget_ptr \<Rightarrow> widget_t"
  wibox_heap :: "wibox_ptr \<Rightarrow> wibox_t"
  wiboxes :: "wibox_ptr list"
  clients :: "client_t list"
  stack :: "lua_value list"
  lua_functions :: "nat \<Rightarrow> lua_value list \<Rightarrow> lua_value option"
  xscreens :: "nat \<Rightarrow> xcb_screen_t"
  root_property :: "nat \<Rightarrow> xcb_get_property_reply_t option"
  next_widget :: widget_ptr
  trace :: "event list"

section \<open>The stack of the scripting engine\<close>

text \<open>
  The operations of the engine's C interface that \<^verbatim>\<open>widget.c\<close> uses, on a
  stack whose top is the head of the list. \<^verbatim>\<open>widget.c\<close> addresses the stack
  with negative indices: \<open>-1\<close> is the top.
\<close>

definition stack_pos :: "int \<Rightarrow> nat" where
  "stack_pos idx = nat (- idx) - 1"

definition lua_at :: "int \<Rightarrow> lua_value list \<Rightarrow> lua_value" where
  "lua_at idx st = (if idx < 0 \<and> stack_pos idx < length st then st ! stack_pos idx else LNil)"

definition lua_pushnil :: "lua_value list \<Rightarrow> lua_value list" where
  "lua_pushnil st = LNil # st"

definition lua_pushnumber :: "int \<Rightarrow> lua_value list \<Rightarrow> lua_value list" where
  "lua_pushnumber n st = LNumber n # st"

definition lua_pushvalue :: "int \<Rightarrow> lua_value list \<Rightarrow> lua_value list" where
  "lua_pushvalue idx st = lua_at idx st # st"

definition lua_pop :: "nat \<Rightarrow> lua_value list \<Rightarrow> lua_value list" where
  "lua_pop n st = drop n st"

definition lua_remove :: "int \<Rightarrow> lua_value list \<Rightarrow> lua_value list" where
  "lua_remove idx st = take (stack_pos idx) st @ drop (Suc (stack_pos idx)) st"

definition lua_insert :: "int \<Rightarrow> lua_value list \<Rightarrow> lua_value list" where
  "lua_insert idx st =
     (case st of [] \<Rightarrow> [] | v # r \<Rightarrow> take (stack_pos idx) r @ v # drop (stack_pos idx) r)"

definition lua_newtable :: "lua_value list \<Rightarrow> lua_value list" where
  "lua_newtable st = LTable [] # st"

definition lua_isfunction :: "int \<Rightarrow> lua_value list \<Rightarrow> bool" where
  "lua_isfunction idx st = (case lua_at idx st of LFunction f \<Rightarrow> True | _ \<Rightarrow> False)"

text \<open>Reading and writing a key of a table; storing nil removes the key.\<close>

definition table_get :: "lua_table \<Rightarrow> lua_value \<Rightarrow> lua_value" where
  "table_get kvs k = (case map_of kvs k of None \<Rightarrow> LNil | Some v \<Rightarrow> v)"

fun table_set :: "lua_table \<Rightarrow> lua_value \<Rightarrow> lua_value \<Rightarrow> lua_table" where
  "table_set [] k v = (if v = LNil then [] else [(k, v)])"
| "table_set (kv # kvs) k v =
     (if fst kv = k then (if v = LNil then kvs else (k, v) # kvs)
      else kv # table_set kvs k v)"

text \<open>
  \<^verbatim>\<open>lua_getfield\<close> is applied to the widget table only; a value without
  fields gives nil.
\<close>

definition lua_getfield :: "int \<Rightarrow> string \<Rightarrow> lua_value list \<Rightarrow> lua_value list" where
  "lua_getfield idx name st =
     (case lua_at idx st of
        LTable kvs \<Rightarrow> table_get kvs (LString name)
      | _ \<Rightarrow> LNil) # st"

text \<open>
  \<^verbatim>\<open>lua_settable(L, idx)\<close>: the value is on top, the key below it, both are
  popped, and the table at \<open>idx\<close> is updated.
\<close>

definition lua_settable :: "int \<Rightarrow> lua_value list \<Rightarrow> lua_value list" where
  "lua_settable idx st =
     (case st of
        v # k # r \<Rightarrow>
          (let pos = stack_pos idx - 2 in
           if idx \<le> - 3 \<and> pos < length r
           then (case r ! pos of
                   LTable kvs \<Rightarrow> r[pos := LTable (table_set kvs k v)]
                 | _ \<Rightarrow> r)
           else r)
      | _ \<Rightarrow> st)"

text \<open>
  The length of a table: the number of the consecutive keys \<open>1, 2, ...\<close> it holds.
\<close>

definition table_len :: "lua_table \<Rightarrow> nat" where
  "table_len kvs =
     length (takeWhile (\<lambda>i. table_get kvs (LNumber (int i)) \<noteq> LNil) [1 ..< Suc (length kvs)])"

section \<open>Helpers of the repository that widget.c calls\<close>

text \<open>
  Modelled from the spec: \<^verbatim>\<open>luaA_pusharea\<close> is missing; it pushes a geometry
  record with the fields \<open>x\<close>, \<open>y\<close>, \<open>width\<close> and \<open>height\<close>.
\<close>

definition area_value :: "area_t \<Rightarrow> lua_value" where
  "area_value a =
     LTable [(LString ''x'', LNumber (x a)), (LString ''y'', LNumber (y a)),
             (LString ''width'', LNumber (width a)), (LString ''height'', LNumber (height a))]"

definition luaA_pusharea :: "area_t \<Rightarrow> lua_value list \<Rightarrow> lua_value list" where
  "luaA_pusharea a st = area_value a # st"

text \<open>
  Modelled from the spec: \<^verbatim>\<open>luaA_getopt_number\<close> is missing; it reads a
  numeric field of a geometry record and gives the default when the field is absent.
\<close>

definition luaA_getopt_number :: "lua_table \<Rightarrow> string \<Rightarrow> int \<Rightarrow> int" where
  "luaA_getopt_number kvs name def =
     (case table_get kvs (LString name) of LNumber n \<Rightarrow> n | _ \<Rightarrow> def)"

text \<open>
  Modelled from the spec: \<^verbatim>\<open>luaA_object_push\<close> and
  \<^verbatim>\<open>luaA_object_push_item\<close> are missing; the first pushes the wibox, the
  second the table the wibox refers to, nil when there is none.
\<close>

definition luaA_object_push :: "wibox_ptr \<Rightarrow> lua_value list \<Rightarrow> lua_value list" where
  "luaA_object_push p st = LWibox p # st"

definition luaA_object_push_item :: "lua_table option \<Rightarrow> lua_value list \<Rightarrow> lua_value list" where
  "luaA_object_push_item item st =
     (case item of None \<Rightarrow> LNil # st | Some kvs \<Rightarrow> LTable kvs # st)"

text \<open>
  Modelled from the spec: \<^verbatim>\<open>luaA_dofunction\<close> is missing; it invokes the
  policy, which is on top of the stack above its \<open>nargs\<close> arguments, and expects
  one value (\<open>nret\<close> is 1 at its only call); a failure of the evaluator is reported
  as \<open>False\<close>. The call is recorded with its arguments in the order in which they
  were pushed. The policy is a function of its arguments: what it returns, or that it
  fails, is given by \<open>lua_functions\<close>.
\<close>

definition luaA_dofunction :: "nat \<Rightarrow> nat \<Rightarrow> state \<Rightarrow> bool \<times> state" where
  "luaA_dofunction nargs nret s =
     (case stack s of
        LFunction f # r \<Rightarrow>
          (let args = rev (take nargs r);
               s1 = s\<lparr>trace := trace s @ [Lua_call f args]\<rparr>
           in case lua_functions s f args of
                None \<Rightarrow> (False, s1\<lparr>stack := drop nargs r\<rparr>)
              | Some v \<Rightarrow> (True, s1\<lparr>stack := v # drop nargs r\<rparr>))
      | _ \<Rightarrow> (False, s\<lparr>stack := drop (Suc nargs) (stack s)\<rparr>))"

section \<open>luaA\_table2widgets\<close>

text \<open>
  \<^verbatim>\<open>luaA_table2widgets\<close> consumes the value on top of the stack: a table is
  walked with \<^verbatim>\<open>luaA_next\<close>, recursively on every value; a widget is appended
  as a node whose geometry is cleared (\<^verbatim>\<open>p_clear\<close>); any other value is
  dropped.
\<close>

definition area_zero :: area_t where
  "area_zero = \<lparr>x = 0, y = 0, width = 0, height = 0\<rparr>"

fun luaA_table2widgets :: "lua_value \<Rightarrow> widget_node_t list \<Rightarrow> widget_node_t list"
and luaA_table2widgets_next :: "lua_table \<Rightarrow> widget_node_t list \<Rightarrow> widget_node_t list"
where
  "luaA_table2widgets (LTable kvs) ws = luaA_table2widgets_next kvs ws"
| "luaA_table2widgets (LWidget p) ws = ws @ [\<lparr>widget = p, widget_node_t.geometry = area_zero\<rparr>]"
| "luaA_table2widgets LNil ws = ws"
| "luaA_table2widgets (LBoolean b) ws = ws"
| "luaA_table2widgets (LNumber n) ws = ws"
| "luaA_table2widgets (LString str) ws = ws"
| "luaA_table2widgets (LFunction f) ws = ws"
| "luaA_table2widgets (LWibox p) ws = ws"
| "luaA_table2widgets_next [] ws = ws"
| "luaA_table2widgets_next (kv # kvs) ws =
     luaA_table2widgets_next kvs (luaA_table2widgets (snd kv) ws)"

text \<open>
  The three calls that push the widget table of a wibox (push the wibox, push the item,
  remove the wibox), and \<^verbatim>\<open>luaA_table2widgets\<close> applied to the top of the
  stack, which it consumes.
\<close>

definition push_widgets_table :: "wibox_ptr \<Rightarrow> wibox_t \<Rightarrow> lua_value list \<Rightarrow> lua_value list" where
  "push_widgets_table p wibox st =
     lua_remove (- 2) (luaA_object_push_item (widgets_table wibox) (luaA_object_push p st))"

definition table2widgets_top ::
  "lua_value list \<Rightarrow> widget_node_t list \<Rightarrow> lua_value list \<times> widget_node_t list" where
  "table2widgets_top st ws =
     (case st of [] \<Rightarrow> ([], ws) | v # r \<Rightarrow> (r, luaA_table2widgets v ws))"

section \<open>widget\_getbycoords\<close>

text \<open>
  The \<^verbatim>\<open>foreach\<close> loop of \<^verbatim>\<open>widget_getbycoords\<close>: the first node
  whose widget is visible and whose geometry holds the point ends the loop. The comparisons
  are made on the promoted \<^verbatim>\<open>int\<close> values.
\<close>

fun widget_getbycoords_foreach ::
  "(widget_ptr \<Rightarrow> widget_t) \<Rightarrow> widget_node_t list \<Rightarrow> int \<Rightarrow> int \<Rightarrow> widget_ptr option"
where
  "widget_getbycoords_foreach wm [] px py = None"
| "widget_getbycoords_foreach wm (w # ws) px py =
     (if isvisible (wm (widget w))
         \<and> px \<ge> x (widget_node_t.geometry w)
         \<and> px < x (widget_node_t.geometry w) + width (widget_node_t.geometry w)
         \<and> py \<ge> y (widget_node_t.geometry w)
         \<and> py < y (widget_node_t.geometry w) + height (widget_node_t.geometry w)
      then Some (widget w)
      else widget_getbycoords_foreach wm ws px py)"

text \<open>
  \<^verbatim>\<open>*x\<close> and \<^verbatim>\<open>*y\<close> are \<^verbatim>\<open>int16_t\<close> cells: they are read with
  \<open>sint\<close> and an \<^verbatim>\<open>int\<close> stored into them is truncated to 16 bits. The
  function returns the widget found (\<open>None\<close> for \<^verbatim>\<open>NULL\<close>) and the final
  contents of the two cells.
\<close>

definition widget_getbycoords ::
  "(widget_ptr \<Rightarrow> widget_t) \<Rightarrow> orientation_t \<Rightarrow> widget_node_t list \<Rightarrow> int \<Rightarrow> int
     \<Rightarrow> 16 word \<Rightarrow> 16 word \<Rightarrow> widget_ptr option \<times> 16 word \<times> 16 word"
where
  "widget_getbycoords wm ori nodes wd ht px py =
     (let (qx, qy) =
        (case ori of
           South \<Rightarrow>
             (let tmp = sint py;
                  py1 = (word_of_int (wd - sint px) :: 16 word);
                  px1 = (word_of_int tmp :: 16 word)
              in (px1, py1))
         | North \<Rightarrow>
             (let tmp = sint py;
                  py1 = px;
                  px1 = (word_of_int (ht - tmp) :: 16 word)
              in (px1, py1))
         | East \<Rightarrow> (px, py))
      in (widget_getbycoords_foreach wm nodes (sint qx) (sint qy), qx, qy))"

text \<open>
  The condition of the claim in the words of the specification: the widget of the node is
  visible and the point lies in the half-open rectangle of the node's geometry.
\<close>

definition node_hit :: "(widget_ptr \<Rightarrow> widget_t) \<Rightarrow> widget_node_t \<Rightarrow> int \<Rightarrow> int \<Rightarrow> bool" where
  "node_hit wm n px py \<longleftrightarrow>
     isvisible (wm (widget n))
     \<and> x (widget_node_t.geometry n) \<le> px
     \<and> px < x (widget_node_t.geometry n) + width (widget_node_t.geometry n)
     \<and> y (widget_node_t.geometry n) \<le> py
     \<and> py < y (widget_node_t.geometry n) + height (widget_node_t.geometry n)"

section \<open>widget\_geometries\<close>

text \<open>
  The loop of the default path over the nodes \<open>widgets->tab[i]\<close>, \<open>i\<close> from 0:
  the key \<open>i + 1\<close> of the table of geometries receives the area of the widget's
  extents, moved to the origin and cut to the size of the wibox.
\<close>

fun widget_geometries_for ::
  "wibox_t \<Rightarrow> (widget_ptr \<Rightarrow> widget_t) \<Rightarrow> widget_node_t list \<Rightarrow> nat
     \<Rightarrow> lua_value list \<Rightarrow> lua_value list"
where
  "widget_geometries_for wibox wh [] i st = st"
| "widget_geometries_for wibox wh (n # ns) i st =
     (let st1 = lua_pushnumber (int i + 1) st;
          w = wh (widget n);
          st2 = lua_pushnumber (screen wibox) st1;
          g0 = extents w;
          st3 = lua_pop 1 st2;
          g1 = g0\<lparr>y := 0\<rparr>;
          g2 = g1\<lparr>x := 0\<rparr>;
          g3 = g2\<lparr>width := min (width (geometry wibox)) (width g2)\<rparr>;
          g4 = g3\<lparr>height := min (height (geometry wibox)) (height g3)\<rparr>;
          st4 = luaA_pusharea g4 st3;
          st5 = lua_settable (- 3) st4
      in widget_geometries_for wibox wh ns (Suc i) st5)"

text \<open>
  \<^verbatim>\<open>widget_geometries\<close> returns the boolean of the source and the new state. On
  the policy path the node array of the wibox is not touched; on the default path it is
  wiped and rebuilt from the widget table, and the table of geometries is left on top of
  the stack.
\<close>

definition widget_geometries :: "wibox_ptr \<Rightarrow> state \<Rightarrow> bool \<times> state" where
  "widget_geometries p s =
     (let wibox = wibox_heap s p;
          st1 = (if widgets_table wibox \<noteq> None
                 then lua_getfield (- 1) ''layout'' (push_widgets_table p wibox (stack s))
                 else lua_pushnil (stack s))
      in if lua_isfunction (- 1) st1
         then
           (let g0 = geometry wibox;
                g1 = g0\<lparr>x := 0\<rparr>;
                g2 = g1\<lparr>y := 0\<rparr>;
                g3 = (if orientation wibox \<noteq> East
                      then (let i = height g2;
                                g2a = g2\<lparr>height := width g2\<rparr>
                            in g2a\<lparr>width := i\<rparr>)
                      else g2);
                st2 = luaA_pusharea g3 st1;
                st3 = lua_pushvalue (- 3) st2;
                st4 = lua_pushnumber (screen wibox) st3;
                st5 = lua_pushvalue (- 4) st4;
                (ok, s1) = luaA_dofunction 3 1 (s\<lparr>stack := st5\<rparr>)
            in if \<not> ok then (False, s1)
               else (True, s1\<lparr>stack := lua_pop 2 (lua_insert (- 3) (stack s1))\<rparr>))
         else
           (let st2 = lua_pop 1 st1;
                (st3, ws) = table2widgets_top (push_widgets_table p wibox st2) [];
                st4 = lua_newtable st3;
                st5 = widget_geometries_for wibox (widget_heap s) ws 0 st4
            in (True, s\<lparr>wibox_heap := (wibox_heap s)(p := wibox\<lparr>widgets := ws\<rparr>),
                        stack := st5\<rparr>)))"

section \<open>widget\_render\<close>

text \<open>
  \<^verbatim>\<open>widget_render\<close> returns nothing; the model tells apart a completed render,
  a render aborted because \<^verbatim>\<open>widget_geometries\<close> failed, and a render that
  leaves the model: an entry of the table of geometries that cannot be indexed (an error
  of the scripting engine) or a write past the end of the node array.
\<close>

datatype render_result = Rendered state | Aborted state | Render_error

text \<open>
  The compositing of the desktop background (the body of the test of
  \<^verbatim>\<open>ctx->bg.alpha\<close>): the root pixmap is queried; a present reply with a
  value and a pixmap other than 0 is rotated or copied according to the orientation.
\<close>

definition composite_root :: "wibox_t \<Rightarrow> state \<Rightarrow> state" where
  "composite_root wibox s =
     (let c = ctx wibox;
          px = x (geometry wibox);
          py = y (geometry wibox);
          scr = xscreens s (phys_screen c);
          s1 = s\<lparr>trace := trace s @ [Xcb_get_property (root scr)]\<rparr>
      in case root_property s (root scr) of
           None \<Rightarrow> s1
         | Some prop_r \<Rightarrow>
             (case property_value prop_r of
                None \<Rightarrow> s1
              | Some rootpix \<Rightarrow>
                  if value_len prop_r \<noteq> 0 \<and> rootpix \<noteq> 0
                  then
                    (case orientation wibox of
                       North \<Rightarrow>
                         s1\<lparr>trace := trace s1 @
                           [Draw_rotate rootpix (draw_context_t.pixmap c)
                              (width_in_pixels scr) (height_in_pixels scr)
                              (draw_context_t.width c) (draw_context_t.height c)
                              Plus_M_PI_2 (py + draw_context_t.width c) (- px)]\<rparr>
                     | South \<Rightarrow>
                         s1\<lparr>trace := trace s1 @
                           [Draw_rotate rootpix (draw_context_t.pixmap c)
                              (width_in_pixels scr) (height_in_pixels scr)
                              (draw_context_t.width c) (draw_context_t.height c)
                              Minus_M_PI_2 (- py) (px + draw_context_t.height c)]\<rparr>
                     | East \<Rightarrow>
                         s1\<lparr>trace := trace s1 @
                           [Xcb_copy_area rootpix (pixmap wibox) (gc wibox) px py 0 0
                              (draw_context_t.width c) (draw_context_t.height c)]\<rparr>)
                  else s1))"

text \<open>
  \<^verbatim>\<open>lua_objlen\<close>: the length of a table or of a string, the (nonzero) size
  of a userdata, 0 for any other value.
\<close>

definition lua_objlen :: "lua_value \<Rightarrow> nat" where
  "lua_objlen v =
     (case v of
        LTable kvs \<Rightarrow> table_len kvs
      | LString str \<Rightarrow> length str
      | LWidget w \<Rightarrow> 1
      | LWibox w \<Rightarrow> 1
      | _ \<Rightarrow> 0)"

text \<open>
  The loop that reads the computed geometries back: \<open>k\<close> iterations remain, the
  next index is \<open>i\<close>. The entry \<open>i + 1\<close> of the value \<open>g\<close> must be a
  geometry record and \<open>widgets->tab[i]\<close> must exist.
\<close>

fun widget_render_geometries ::
  "wibox_t \<Rightarrow> lua_value \<Rightarrow> nat \<Rightarrow> nat \<Rightarrow> widget_node_t list \<Rightarrow> widget_node_t list option"
where
  "widget_render_geometries wibox g i 0 ws = Some ws"
| "widget_render_geometries wibox g i (Suc k) ws =
     (case g of
        LTable kvs \<Rightarrow>
          (case table_get kvs (LNumber (int i + 1)) of
             LTable item \<Rightarrow>
               (if i < length ws
                then widget_render_geometries wibox g (Suc i) k
                       (ws[i := (ws ! i)\<lparr>widget_node_t.geometry :=
                          \<lparr>x = luaA_getopt_number item ''x'' (x (geometry wibox)),
                           y = luaA_getopt_number item ''y'' (y (geometry wibox)),
                           width = luaA_getopt_number item ''width'' 1,
                           height = luaA_getopt_number item ''height'' 1\<rparr>\<rparr>])
                else None)
           | _ \<Rightarrow> None)
      | _ \<Rightarrow> None)"

text \<open>The loop that draws: one call of the draw capability for every visible node.\<close>

fun widget_render_draw ::
  "(widget_ptr \<Rightarrow> widget_t) \<Rightarrow> draw_context_t \<Rightarrow> wibox_ptr \<Rightarrow> widget_node_t list \<Rightarrow> event list"
where
  "widget_render_draw wh c p [] = []"
| "widget_render_draw wh c p (n # ns) =
     (if isvisible (wh (widget n))
      then Widget_draw (widget n) c (widget_node_t.geometry n) p # widget_render_draw wh c p ns
      else widget_render_draw wh c p ns)"

text \<open>
  The painting of the background: the background image, when there is one and the
  background colour is not opaque, then the rectangle of the context in the background
  colour.
\<close>

definition draw_background :: "wibox_t \<Rightarrow> draw_context_t \<Rightarrow> event list" where
  "draw_background wibox c =
     (case bg_image wibox of
        Some img \<Rightarrow> if alpha (bg c) \<noteq> 0xffff then [Draw_image 0 0 img] else []
      | None \<Rightarrow> [])
     @ [Draw_rectangle
          \<lparr>x = 0, y = 0, width = draw_context_t.width c, height = draw_context_t.height c\<rparr>
          True (bg c)]"

text \<open>The final \<^verbatim>\<open>switch\<close>: the rotation of the context into the pixmap of the wibox.\<close>

definition rotate_to_wibox :: "wibox_t \<Rightarrow> draw_context_t \<Rightarrow> event list" where
  "rotate_to_wibox wibox c =
     (case orientation wibox of
        South \<Rightarrow>
          [Draw_rotate (draw_context_t.pixmap c) (pixmap wibox)
             (draw_context_t.width c) (draw_context_t.height c)
             (draw_context_t.height c) (draw_context_t.width c)
             Plus_M_PI_2 (draw_context_t.height c) 0]
      | North \<Rightarrow>
          [Draw_rotate (draw_context_t.pixmap c) (pixmap wibox)
             (draw_context_t.width c) (draw_context_t.height c)
             (draw_context_t.height c) (draw_context_t.width c)
             Minus_M_PI_2 0 (draw_context_t.width c)]
      | East \<Rightarrow> [])"

definition widget_render :: "wibox_ptr \<Rightarrow> state \<Rightarrow> render_result" where
  "widget_render p s =
     (let c = ctx (wibox_heap s p);
          (ok, s1) = widget_geometries p s
      in if \<not> ok then Aborted s1
         else
           (let wibox = wibox_heap s1 p;
                s2 = (if alpha (bg c) \<noteq> 0xffff then composite_root wibox s1 else s1);
                (st3, ws) = table2widgets_top (push_widgets_table p wibox (stack s2)) []
            in case widget_render_geometries wibox (lua_at (- 1) st3) 0
                      (lua_objlen (lua_at (- 1) st3)) ws of
                 None \<Rightarrow> Render_error
               | Some ws1 \<Rightarrow>
                   Rendered
                     (s2\<lparr>wibox_heap := (wibox_heap s2)(p := wibox\<lparr>widgets := ws1\<rparr>),
                         stack := lua_pop 1 st3,
                         trace := trace s2 @ draw_background wibox c
                                  @ widget_render_draw (widget_heap s2) c p ws1
                                  @ rotate_to_wibox wibox c\<rparr>)))"

section \<open>widget\_invalidate\_bywidget\<close>

text \<open>
  The inner loop over the nodes of a surface: the first node that holds the widget sets
  \<open>need_update\<close> and ends the loop.
\<close>

fun bywidget_foreach_wnode :: "widget_ptr \<Rightarrow> widget_node_t list \<Rightarrow> wibox_t \<Rightarrow> wibox_t" where
  "bywidget_foreach_wnode w [] wibox = wibox"
| "bywidget_foreach_wnode w (wnode # ns) wibox =
     (if widget wnode = w then wibox\<lparr>need_update := True\<rparr>
      else bywidget_foreach_wnode w ns wibox)"

fun bywidget_foreach_wibox ::
  "widget_ptr \<Rightarrow> wibox_ptr list \<Rightarrow> (wibox_ptr \<Rightarrow> wibox_t) \<Rightarrow> (wibox_ptr \<Rightarrow> wibox_t)"
where
  "bywidget_foreach_wibox w [] h = h"
| "bywidget_foreach_wibox w (p # ps) h =
     bywidget_foreach_wibox w ps
       (if \<not> need_update (h p)
        then h(p := bywidget_foreach_wnode w (widgets (h p)) (h p))
        else h)"

fun bywidget_foreach_client ::
  "widget_ptr \<Rightarrow> client_t list \<Rightarrow> (wibox_ptr \<Rightarrow> wibox_t) \<Rightarrow> (wibox_ptr \<Rightarrow> wibox_t)"
where
  "bywidget_foreach_client w [] h = h"
| "bywidget_foreach_client w (c # cs) h =
     bywidget_foreach_client w cs
       (case titlebar c of
          None \<Rightarrow> h
        | Some t \<Rightarrow>
            if \<not> need_update (h t)
            then h(t := bywidget_foreach_wnode w (widgets (h t)) (h t))
            else h)"

definition widget_invalidate_bywidget :: "widget_ptr \<Rightarrow> state \<Rightarrow> state" where
  "widget_invalidate_bywidget w s =
     s\<lparr>wibox_heap :=
         bywidget_foreach_client w (clients s)
           (bywidget_foreach_wibox w (wiboxes s) (wibox_heap s))\<rparr>"

section \<open>luaA\_widget\_new and luaA\_widget\_newindex\<close>

datatype awesome_token_t =
    A_TK_UNKNOWN
  | A_TK_VISIBLE
  | A_TK_MOUSE_ENTER
  | A_TK_MOUSE_LEAVE
  | A_TK_TEXTBOX
  | A_TK_PROGRESSBAR
  | A_TK_GRAPH
  | A_TK_SYSTRAY
  | A_TK_IMAGEBOX

text \<open>
  Modelled from the spec: \<^verbatim>\<open>a_tokenize\<close> is missing; it maps the type names
  \<open>textbox\<close>, \<open>progressbar\<close>, \<open>graph\<close>, \<open>systray\<close>, \<open>imagebox\<close> and the
  keys \<open>visible\<close>, \<open>mouse_enter\<close>, \<open>mouse_leave\<close> to their tokens. Every other
  string, and a missing string, is a token that \<^verbatim>\<open>widget.c\<close> does not name.
\<close>

definition a_tokenize :: "string option \<Rightarrow> awesome_token_t" where
  "a_tokenize str =
     (if str = Some ''visible'' then A_TK_VISIBLE
      else if str = Some ''mouse_enter'' then A_TK_MOUSE_ENTER
      else if str = Some ''mouse_leave'' then A_TK_MOUSE_LEAVE
      else if str = Some ''textbox'' then A_TK_TEXTBOX
      else if str = Some ''progressbar'' then A_TK_PROGRESSBAR
      else if str = Some ''graph'' then A_TK_GRAPH
      else if str = Some ''systray'' then A_TK_SYSTRAY
      else if str = Some ''imagebox'' then A_TK_IMAGEBOX
      else A_TK_UNKNOWN)"

text \<open>
  An error raised by an argument check of the scripting engine
  (\<^verbatim>\<open>luaL_checkudata\<close>, \<^verbatim>\<open>luaL_checklstring\<close>,
  \<^verbatim>\<open>luaA_checktable\<close>, \<^verbatim>\<open>luaA_checkboolean\<close>,
  \<^verbatim>\<open>luaA_checkfunction\<close>).
\<close>

datatype lua_error = Lua_error

text \<open>
  The decimal form in which the scripting engine reads a number as a string (exact for the
  numbers of up to 14 digits).
\<close>

fun nat_string :: "nat \<Rightarrow> string" where
  "nat_string n =
     (if n < 10 then [char_of (48 + n)]
      else nat_string (n div 10) @ [char_of (48 + n mod 10)])"

declare nat_string.simps [simp del]

definition lua_number_string :: "int \<Rightarrow> string" where
  "lua_number_string n =
     (if n < 0 then CHR ''-'' # nat_string (nat (- n)) else nat_string (nat n))"

text \<open>
  Modelled from the spec: \<^verbatim>\<open>luaA_getopt_lstring\<close> is missing; it reads a
  field of a table as a string and gives the default when the field is absent. As in the
  engine's \<^verbatim>\<open>luaL_optlstring\<close>, a number is read in its decimal form and a
  value of any other type raises an error.
\<close>

definition luaA_getopt_lstring ::
  "lua_table \<Rightarrow> string \<Rightarrow> string option \<Rightarrow> lua_error + string option" where
  "luaA_getopt_lstring kvs name def =
     (case table_get kvs (LString name) of
        LNil \<Rightarrow> Inr def
      | LString str \<Rightarrow> Inr (Some str)
      | LNumber n \<Rightarrow> Inr (Some (lua_number_string n))
      | _ \<Rightarrow> Inl Lua_error)"

text \<open>
  Modelled from the spec: \<^verbatim>\<open>widget_new\<close> is missing; it allocates a cleared
  widget at a fresh address and pushes it.
\<close>

definition widget_cleared :: widget_t where
  "widget_cleared =
     \<lparr>type = None, isvisible = False, mouse_enter = None, mouse_leave = None,
      extents = area_zero\<rparr>"

definition widget_new :: "state \<Rightarrow> widget_ptr \<times> state" where
  "widget_new s =
     (let p = next_widget s
      in (p, s\<lparr>widget_heap := (widget_heap s)(p := widget_cleared),
               stack := LWidget p # stack s,
               next_widget := Suc p\<rparr>))"

text \<open>
  \<^verbatim>\<open>luaA_widget_new\<close> on the arguments of the call (index 1 first). The
  constructors are not part of \<^verbatim>\<open>widget.c\<close>: what \<open>wc(w)\<close> does to the
  widget is the parameter \<open>construct\<close>. The result is the number of values returned
  and the new state.
\<close>

definition luaA_widget_new ::
  "(widget_constructor_t \<Rightarrow> widget_t \<Rightarrow> widget_t) \<Rightarrow> lua_value list \<Rightarrow> state
     \<Rightarrow> lua_error + nat \<times> state"
where
  "luaA_widget_new construct args s =
     (case args of
        cls # LTable kvs # rest \<Rightarrow>
          (case luaA_getopt_lstring kvs ''type'' None of
             Inl e \<Rightarrow> Inl e
           | Inr tname \<Rightarrow>
               (let wc = (case a_tokenize tname of
                            A_TK_TEXTBOX \<Rightarrow> Some widget_textbox
                          | A_TK_PROGRESSBAR \<Rightarrow> Some widget_progressbar
                          | A_TK_GRAPH \<Rightarrow> Some widget_graph
                          | A_TK_SYSTRAY \<Rightarrow> Some widget_systray
                          | A_TK_IMAGEBOX \<Rightarrow> Some widget_imagebox
                          | _ \<Rightarrow> None)
                in case wc of
                     Some c \<Rightarrow>
                       (let (w, s1) = widget_new s;
                            s2 = s1\<lparr>widget_heap := (widget_heap s1)
                                   (w := construct c (widget_heap s1 w))\<rparr>;
                            s3 = s2\<lparr>widget_heap := (widget_heap s2)
                                   (w := (widget_heap s2 w)\<lparr>type := Some c\<rparr>)\<rparr>;
                            s4 = s3\<lparr>widget_heap := (widget_heap s3)
                                   (w := (widget_heap s3 w)\<lparr>isvisible := True\<rparr>)\<rparr>
                        in Inr (1, s4))
                   | None \<Rightarrow> Inr (0, s\<lparr>trace := trace s @ [Lua_warn tname]\<rparr>)))
      | _ \<Rightarrow> Inl Lua_error)"

text \<open>
  \<^verbatim>\<open>luaL_checklstring\<close> on the key, then \<^verbatim>\<open>a_tokenize\<close>: a
  string is tokenized as it is, a number in its decimal form; any other value raises an
  error.
\<close>

definition key_token :: "lua_value \<Rightarrow> awesome_token_t option" where
  "key_token k =
     (case k of
        LString buf \<Rightarrow> Some (a_tokenize (Some buf))
      | LNumber n \<Rightarrow> Some (a_tokenize (Some (lua_number_string n)))
      | _ \<Rightarrow> None)"

text \<open>
  \<^verbatim>\<open>luaA_widget_newindex\<close> on the arguments of the call (the widget, the key,
  the value). The type-specific \<^verbatim>\<open>newindex\<close> capability of a widget is the
  parameter \<open>newindex\<close> (\<open>None\<close> for \<^verbatim>\<open>NULL\<close>).
\<close>

definition luaA_widget_newindex ::
  "(widget_ptr \<Rightarrow> (awesome_token_t \<Rightarrow> lua_value list \<Rightarrow> state \<Rightarrow> lua_error + nat \<times> state) option)
     \<Rightarrow> lua_value list \<Rightarrow> state \<Rightarrow> lua_error + nat \<times> state"
where
  "luaA_widget_newindex newindex args s =
     (case args of
        LWidget w # key # rest \<Rightarrow>
          (case key_token key of
             None \<Rightarrow> Inl Lua_error
           | Some token \<Rightarrow>
               (case token of
                  A_TK_VISIBLE \<Rightarrow>
                    (case rest of
                       LBoolean b # rest1 \<Rightarrow>
                         Inr (0, widget_invalidate_bywidget w
                                   (s\<lparr>widget_heap := (widget_heap s)
                                        (w := (widget_heap s w)\<lparr>isvisible := b\<rparr>)\<rparr>))
                     | _ \<Rightarrow> Inl Lua_error)
                | A_TK_MOUSE_ENTER \<Rightarrow>
                    (case rest of
                       LFunction f # rest1 \<Rightarrow>
                         Inr (0, s\<lparr>widget_heap := (widget_heap s)
                                     (w := (widget_heap s w)\<lparr>mouse_enter := Some (LFunction f)\<rparr>),
                                   trace := trace s @
                                     [Object_unref_item w (mouse_enter (widget_heap s w)),
                                      Object_ref_item w (LFunction f)]\<rparr>)
                     | _ \<Rightarrow> Inl Lua_error)
                | A_TK_MOUSE_LEAVE \<Rightarrow>
                    (case rest of
                       LFunction f # rest1 \<Rightarrow>
                         Inr (0, s\<lparr>widget_heap := (widget_heap s)
                                     (w := (widget_heap s w)\<lparr>mouse_leave := Some (LFunction f)\<rparr>),
                                   trace := trace s @
                                     [Object_unref_item w (mouse_leave (widget_heap s w)),
                                      Object_ref_item w (LFunction f)]\<rparr>)
                     | _ \<Rightarrow> Inl Lua_error)
                | _ \<Rightarrow>
                    (case newindex w of
                       Some cap \<Rightarrow> cap token args s
                     | None \<Rightarrow> Inr (0, s))))
      | _ \<Rightarrow> Inl Lua_error)"

section \<open>Notions of the specification\<close>

text \<open>
  The value that an \<^verbatim>\<open>int\<close> has once it is stored in an \<^verbatim>\<open>int16_t\<close>
  cell: it is reduced modulo \<open>2\<^sup>1\<^sup>6\<close> into the range from -32768 to 32767.
\<close>

definition int16_of :: "int \<Rightarrow> int" where
  "int16_of v = (v + 32768) mod 65536 - 32768"

text \<open>
  What \<^verbatim>\<open>widget_invalidate_bywidget\<close> is to do to one surface, in the words of
  the specification: the dirty flag is set when the node collection contains the widget,
  and the surface is unchanged otherwise.
\<close>

definition invalidated :: "widget_ptr \<Rightarrow> wibox_t \<Rightarrow> wibox_t" where
  "invalidated w wibox =
     (if w \<in> widget ` set (widgets wibox) then wibox\<lparr>need_update := True\<rparr> else wibox)"

text \<open>The titlebar surfaces of the clients.\<close>

definition titlebars :: "client_t list \<Rightarrow> wibox_ptr set" where
  "titlebars cs = {t. \<exists>c \<in> set cs. titlebar c = Some t}"

text \<open>
  The default resolution in the words of the specification: a surface has a policy when
  the \<open>layout\<close> field of its widget table is callable; without one, the geometry of a
  widget is at the origin, as wide as the smaller of the surface's width and the natural
  width of the widget, and as high as the smaller of the two heights.
\<close>

definition has_policy :: "wibox_t \<Rightarrow> bool" where
  "has_policy wibox =
     (case widgets_table wibox of
        None \<Rightarrow> False
      | Some t \<Rightarrow> (case table_get t (LString ''layout'') of LFunction f \<Rightarrow> True | _ \<Rightarrow> False))"

definition default_geometry :: "wibox_t \<Rightarrow> widget_t \<Rightarrow> area_t" where
  "default_geometry wibox w =
     \<lparr>x = 0, y = 0,
      width = min (width (geometry wibox)) (width (extents w)),
      height = min (height (geometry wibox)) (height (extents w))\<rparr>"

text \<open>The nodes of the widget table of a surface, flattened in traversal order.\<close>

definition flattened :: "wibox_t \<Rightarrow> widget_node_t list" where
  "flattened wibox =
     luaA_table2widgets (case widgets_table wibox of None \<Rightarrow> LNil | Some t \<Rightarrow> LTable t) []"

text \<open>The entries that the loop adds for the nodes \<open>ns\<close>, the first at key \<open>i + 1\<close>.\<close>

fun default_entries ::
  "wibox_t \<Rightarrow> (widget_ptr \<Rightarrow> widget_t) \<Rightarrow> nat \<Rightarrow> widget_node_t list \<Rightarrow> lua_table" where
  "default_entries wibox wh i [] = []"
| "default_entries wibox wh i (n # ns) =
     (LNumber (int i + 1), area_value (default_geometry wibox (wh (widget n))))
       # default_entries wibox wh (Suc i) ns"

text \<open>
  The kinds of calls that the claims about rendering tell apart: draw calls of widgets,
  queries of the root pixmap, copies, image drawings, calls of a policy and rotations.
\<close>

definition is_widget_draw :: "event \<Rightarrow> bool" where
  "is_widget_draw e = (case e of Widget_draw w c g p \<Rightarrow> True | _ \<Rightarrow> False)"

definition is_root_query :: "event \<Rightarrow> bool" where
  "is_root_query e = (case e of Xcb_get_property r \<Rightarrow> True | _ \<Rightarrow> False)"

definition is_copy_area :: "event \<Rightarrow> bool" where
  "is_copy_area e = (case e of Xcb_copy_area a b g sx sy dx dy w h \<Rightarrow> True | _ \<Rightarrow> False)"

definition is_draw_image :: "event \<Rightarrow> bool" where
  "is_draw_image e = (case e of Draw_image ix iy img \<Rightarrow> True | _ \<Rightarrow> False)"

definition is_lua_call :: "event \<Rightarrow> bool" where
  "is_lua_call e = (case e of Lua_call f args \<Rightarrow> True | _ \<Rightarrow> False)"

definition is_draw_rotate :: "event \<Rightarrow> bool" where
  "is_draw_rotate e = (case e of Draw_rotate a b sw sh dw dh an tx ty \<Rightarrow> True | _ \<Rightarrow> False)"

text \<open>
  The factory in the words of the specification: the closed set of type names and the
  constructor each one is mapped to.
\<close>

definition constructor_of :: "string option \<Rightarrow> widget_constructor_t option" where
  "constructor_of tname =
     (if tname = Some ''textbox'' then Some widget_textbox
      else if tname = Some ''progressbar'' then Some widget_progressbar
      else if tname = Some ''graph'' then Some widget_graph
      else if tname = Some ''systray'' then Some widget_systray
      else if tname = Some ''imagebox'' then Some widget_imagebox
      else None)"

section \<open>Scenarios\<close>

text \<open>
  The inputs of the scenarios of the specification: a visible widget A whose extents are
  (40, 30), at address 1 and at every address but 3, where an invisible widget lives; two
  nodes; a surface of width 100 and height 20.
\<close>

definition scenario_widget :: "bool \<Rightarrow> widget_t" where
  "scenario_widget vis =
     \<lparr>type = Some widget_textbox, isvisible = vis, mouse_enter = None, mouse_leave = None,
      extents = \<lparr>x = 7, y = 9, width = 40, height = 30\<rparr>\<rparr>"

definition scenario_widgets :: "widget_ptr \<Rightarrow> widget_t" where
  "scenario_widgets a = scenario_widget (a \<noteq> 3)"

definition scenario_nodes :: "widget_node_t list" where
  "scenario_nodes =
     [\<lparr>widget = 1, widget_node_t.geometry = \<lparr>x = 0, y = 0, width = 10, height = 50\<rparr>\<rparr>,
      \<lparr>widget = 2, widget_node_t.geometry = \<lparr>x = 0, y = 80, width = 20, height = 20\<rparr>\<rparr>]"

definition scenario_ctx :: "16 word \<Rightarrow> draw_context_t" where
  "scenario_ctx a =
     \<lparr>draw_context_t.pixmap = 11, phys_screen = 0, width = 20, height = 100,
      bg = \<lparr>pixel = 0, alpha = a\<rparr>\<rparr>"

definition scenario_wibox ::
  "orientation_t \<Rightarrow> 16 word \<Rightarrow> lua_table option \<Rightarrow> widget_node_t list \<Rightarrow> wibox_t" where
  "scenario_wibox ori a t ns =
     \<lparr>geometry = \<lparr>x = 3, y = 4, width = 100, height = 20\<rparr>, orientation = ori,
      ctx = scenario_ctx a, pixmap = 12, gc = 0, screen = 1, widgets = ns,
      need_update = False, bg_image = Some 7, widgets_table = t\<rparr>"

text \<open>
  The policy 0 fails; every other policy returns one geometry, for the first widget.
\<close>

definition scenario_policy :: "nat \<Rightarrow> lua_value list \<Rightarrow> lua_value option" where
  "scenario_policy f args =
     (if f = 0 then None
      else Some (LTable [(LNumber 1, area_value \<lparr>x = 1, y = 2, width = 3, height = 4\<rparr>)]))"

definition scenario_state :: "(wibox_ptr \<Rightarrow> wibox_t) \<Rightarrow> state" where
  "scenario_state wh =
     \<lparr>widget_heap = scenario_widgets, wibox_heap = wh, wiboxes = [0, 1],
      clients = [\<lparr>titlebar = Some 2\<rparr>, \<lparr>titlebar = None\<rparr>], stack = [],
      lua_functions = scenario_policy,
      xscreens = (\<lambda>n. \<lparr>root = 0, width_in_pixels = 1000, height_in_pixels = 800\<rparr>),
      root_property = (\<lambda>r. Some \<lparr>value_len = 1, property_value = Some 99\<rparr>),
      next_widget = 10, trace = []\<rparr>"

text \<open>
  Surfaces for the invalidation: every surface holds the two nodes (widgets 1 and 2) but
  the surface 1, which holds none; none is dirty.
\<close>

definition scenario_surfaces :: "wibox_ptr \<Rightarrow> wibox_t" where
  "scenario_surfaces p =
     scenario_wibox East 0 None (if p = 1 then [] else scenario_nodes)"

text \<open>
  A widget table with two widgets, a nested grouping, an entry that is no widget, and a
  policy \<open>f\<close>; the same table without a policy.
\<close>

definition scenario_table :: "lua_table" where
  "scenario_table =
     [(LNumber 1, LWidget 1),
      (LNumber 2, LTable [(LNumber 1, LWidget 3), (LNumber 2, LNumber 5)])]"

definition scenario_policy_table :: "nat \<Rightarrow> lua_table" where
  "scenario_policy_table f = scenario_table @ [(LString ''layout'', LFunction f)]"

text \<open>
  The surface of the scenario with an opaque background and no policy, and the same
  surface with the policy that fails.
\<close>

definition scenario_opaque :: state where
  "scenario_opaque =
     scenario_state (\<lambda>q. scenario_wibox South 0xffff (Some scenario_table) [])"

definition scenario_failing :: state where
  "scenario_failing =
     scenario_state (\<lambda>q. scenario_wibox South 0 (Some (scenario_policy_table 0)) [])"

text \<open>
  A node of widget 1 whose geometry starts at \<open>y = -25536\<close>, for a surface of width
  40000.
\<close>

definition scenario_far_node :: widget_node_t where
  "scenario_far_node =
     \<lparr>widget = 1, widget_node_t.geometry = \<lparr>x = 0, y = - 25536, width = 10, height = 50\<rparr>\<rparr>"

section \<open>Verification\<close>

lemma foreach_None:
  "widget_getbycoords_foreach wm ws px py = None \<longleftrightarrow> (\<forall>n \<in> set ws. \<not> node_hit wm n px py)"
  by (induction ws) (auto simp: node_hit_def)

lemma foreach_Some:
  "widget_getbycoords_foreach wm ws px py = Some p \<longleftrightarrow>
     (\<exists>i < length ws. widget (ws ! i) = p \<and> node_hit wm (ws ! i) px py
        \<and> (\<forall>j < i. \<not> node_hit wm (ws ! j) px py))"
proof (induction ws)
  case Nil
  show ?case by simp
next
  case (Cons w ws)
  show ?case
  proof (cases "node_hit wm w px py")
    case True
    then have l: "widget_getbycoords_foreach wm (w # ws) px py = Some (widget w)"
      by (simp add: node_hit_def)
    have "(\<exists>i < length (w # ws). widget ((w # ws) ! i) = p \<and> node_hit wm ((w # ws) ! i) px py
              \<and> (\<forall>j < i. \<not> node_hit wm ((w # ws) ! j) px py)) \<longleftrightarrow> widget w = p"
    proof
      assume "\<exists>i < length (w # ws). widget ((w # ws) ! i) = p \<and> node_hit wm ((w # ws) ! i) px py
              \<and> (\<forall>j < i. \<not> node_hit wm ((w # ws) ! j) px py)"
      then obtain i where i: "widget ((w # ws) ! i) = p"
        "\<forall>j < i. \<not> node_hit wm ((w # ws) ! j) px py" by blast
      have "i = 0"
      proof (rule ccontr)
        assume "i \<noteq> 0"
        then have "0 < i" by simp
        with i(2) have "\<not> node_hit wm ((w # ws) ! 0) px py" by blast
        with True show False by simp
      qed
      with i(1) show "widget w = p" by simp
    next
      assume "widget w = p"
      with True show "\<exists>i < length (w # ws). widget ((w # ws) ! i) = p
              \<and> node_hit wm ((w # ws) ! i) px py
              \<and> (\<forall>j < i. \<not> node_hit wm ((w # ws) ! j) px py)"
        by (intro exI [of _ 0]) simp
    qed
    with l show ?thesis by auto
  next
    case False
    then have l: "widget_getbycoords_foreach wm (w # ws) px py
                    = widget_getbycoords_foreach wm ws px py"
      by (auto simp: node_hit_def)
    have "(\<exists>i < length (w # ws). widget ((w # ws) ! i) = p \<and> node_hit wm ((w # ws) ! i) px py
              \<and> (\<forall>j < i. \<not> node_hit wm ((w # ws) ! j) px py))
          \<longleftrightarrow> (\<exists>i < length ws. widget (ws ! i) = p \<and> node_hit wm (ws ! i) px py
              \<and> (\<forall>j < i. \<not> node_hit wm (ws ! j) px py))" (is "?L \<longleftrightarrow> ?R")
    proof
      assume ?L
      then obtain i where i: "i < length (w # ws)" "widget ((w # ws) ! i) = p"
        "node_hit wm ((w # ws) ! i) px py"
        "\<forall>j < i. \<not> node_hit wm ((w # ws) ! j) px py" by blast
      from i(3) False have "i \<noteq> 0" by (cases i) auto
      then obtain k where k: "i = Suc k" by (cases i) auto
      have "\<forall>j < k. \<not> node_hit wm (ws ! j) px py"
      proof (intro allI impI)
        fix j assume "j < k"
        then have "Suc j < i" using k by simp
        with i(4) have "\<not> node_hit wm ((w # ws) ! Suc j) px py" by blast
        then show "\<not> node_hit wm (ws ! j) px py" by simp
      qed
      with i(1,2,3) k show ?R by (intro exI [of _ k]) simp
    next
      assume ?R
      then obtain k where k: "k < length ws" "widget (ws ! k) = p"
        "node_hit wm (ws ! k) px py" "\<forall>j < k. \<not> node_hit wm (ws ! j) px py" by blast
      have "\<forall>j < Suc k. \<not> node_hit wm ((w # ws) ! j) px py"
      proof (intro allI impI)
        fix j assume j: "j < Suc k"
        show "\<not> node_hit wm ((w # ws) ! j) px py"
        proof (cases j)
          case 0
          with False show ?thesis by simp
        next
          case (Suc m)
          with j k(4) show ?thesis by simp
        qed
      qed
      with k(1,2,3) show ?L by (intro exI [of _ "Suc k"]) simp
    qed
    with l Cons.IH show ?thesis by simp
  qed
qed

lemma sint_word_of_int_exact:
  "- 32768 \<le> v \<Longrightarrow> v \<le> 32767 \<Longrightarrow> sint (word_of_int v :: 16 word) = v"
  by (simp add: sint_sbintrunc' signed_take_bit_int_eq_self)

lemma widget_getbycoords_parts:
  assumes "widget_getbycoords wm ori ws wd ht px py = (r, qx, qy)"
  shows "qx = (case ori of South \<Rightarrow> py | North \<Rightarrow> word_of_int (ht - sint py) | East \<Rightarrow> px)"
    and "qy = (case ori of South \<Rightarrow> word_of_int (wd - sint px) | North \<Rightarrow> px | East \<Rightarrow> py)"
    and "ori = South \<Longrightarrow> - 32768 \<le> wd - sint px \<Longrightarrow> wd - sint px \<le> 32767
           \<Longrightarrow> sint qy = wd - sint px \<and> sint qx = sint py"
    and "ori = North \<Longrightarrow> - 32768 \<le> ht - sint py \<Longrightarrow> ht - sint py \<le> 32767
           \<Longrightarrow> sint qx = ht - sint py \<and> sint qy = sint px"
    and "r = Some p \<longleftrightarrow>
           (\<exists>i < length ws. widget (ws ! i) = p \<and> node_hit wm (ws ! i) (sint qx) (sint qy)
              \<and> (\<forall>j < i. \<not> node_hit wm (ws ! j) (sint qx) (sint qy)))"
    and "r = None \<longleftrightarrow> (\<forall>n \<in> set ws. \<not> node_hit wm n (sint qx) (sint qy))"
proof -
  show qx: "qx = (case ori of South \<Rightarrow> py | North \<Rightarrow> word_of_int (ht - sint py) | East \<Rightarrow> px)"
    using assms by (cases ori) (auto simp: widget_getbycoords_def Let_def)
  show qy: "qy = (case ori of South \<Rightarrow> word_of_int (wd - sint px) | North \<Rightarrow> px | East \<Rightarrow> py)"
    using assms by (cases ori) (auto simp: widget_getbycoords_def Let_def)
  show "sint qy = wd - sint px \<and> sint qx = sint py"
    if "ori = South" and "- 32768 \<le> wd - sint px" and "wd - sint px \<le> 32767"
  proof -
    from that(1) qy have "qy = word_of_int (wd - sint px)"
      by (simp only: orientation_t.case)
    then have "sint qy = wd - sint px"
      using that(2,3) by (simp only: sint_word_of_int_exact)
    moreover from that(1) qx have "qx = py"
      by (simp only: orientation_t.case)
    ultimately show ?thesis by simp
  qed
  show "sint qx = ht - sint py \<and> sint qy = sint px"
    if "ori = North" and "- 32768 \<le> ht - sint py" and "ht - sint py \<le> 32767"
  proof -
    from that(1) qx have "qx = word_of_int (ht - sint py)"
      by (simp only: orientation_t.case)
    then have "sint qx = ht - sint py"
      using that(2,3) by (simp only: sint_word_of_int_exact)
    moreover from that(1) qy have "qy = px"
      by (simp only: orientation_t.case)
    ultimately show ?thesis by simp
  qed
  have r: "r = widget_getbycoords_foreach wm ws (sint qx) (sint qy)"
    using assms by (cases ori) (auto simp: widget_getbycoords_def Let_def)
  show "r = Some p \<longleftrightarrow>
           (\<exists>i < length ws. widget (ws ! i) = p \<and> node_hit wm (ws ! i) (sint qx) (sint qy)
              \<and> (\<forall>j < i. \<not> node_hit wm (ws ! j) (sint qx) (sint qy)))"
    unfolding r by (rule foreach_Some)
  show "r = None \<longleftrightarrow> (\<forall>n \<in> set ws. \<not> node_hit wm n (sint qx) (sint qy))"
    unfolding r by (rule foreach_None)
qed

lemma sint_word_of_int_int16_of: "sint (word_of_int v :: 16 word) = int16_of v"
  by (simp add: int_word_sint int16_of_def)

lemma int16_of_exact: "- 32768 \<le> v \<Longrightarrow> v \<le> 32767 \<Longrightarrow> int16_of v = v"
  using sint_word_of_int_exact [of v] by (simp add: sint_word_of_int_int16_of)

text \<open>
  Claim C10, amended. \<^verbatim>\<open>widget_getbycoords\<close> first transforms the query point
  by the orientation, storing the result in its \<^verbatim>\<open>int16_t\<close> cells: for South
  the new y is \<open>width - old x\<close> reduced to a signed 16-bit value and the new x is the
  old y; for North the new x is \<open>height - old y\<close> reduced to a signed 16-bit value and
  the new y is the old x; for East the point is unchanged. The reduction changes nothing
  when the difference lies between -32768 and 32767, where the new coordinate is
  \<open>width - old x\<close> (\<open>height - old y\<close>) itself. The function returns a widget exactly
  when that widget belongs to the first node, in collection order, whose widget is visible
  and whose geometry satisfies \<open>geometry.x \<le> x < geometry.x + geometry.width\<close> and
  \<open>geometry.y \<le> y < geometry.y + geometry.height\<close> at the transformed point, and it
  returns \<^verbatim>\<open>NULL\<close> exactly when no node satisfies this.
\<close>

theorem widget_getbycoords_first_visible_hit:
  "widget_getbycoords wm ori ws wd ht px py = (r, qx, qy) \<Longrightarrow>
     qx = (case ori of South \<Rightarrow> py | North \<Rightarrow> word_of_int (ht - sint py) | East \<Rightarrow> px)
     \<and> qy = (case ori of South \<Rightarrow> word_of_int (wd - sint px) | North \<Rightarrow> px | East \<Rightarrow> py)
     \<and> sint qx = (case ori of South \<Rightarrow> sint py | North \<Rightarrow> int16_of (ht - sint py)
                   | East \<Rightarrow> sint px)
     \<and> sint qy = (case ori of South \<Rightarrow> int16_of (wd - sint px) | North \<Rightarrow> sint px
                   | East \<Rightarrow> sint py)
     \<and> (ori = South \<and> - 32768 \<le> wd - sint px \<and> wd - sint px \<le> 32767
            \<longrightarrow> sint qy = wd - sint px \<and> sint qx = sint py)
     \<and> (ori = North \<and> - 32768 \<le> ht - sint py \<and> ht - sint py \<le> 32767
            \<longrightarrow> sint qx = ht - sint py \<and> sint qy = sint px)
     \<and> (\<forall>p. r = Some p \<longleftrightarrow>
            (\<exists>i < length ws. widget (ws ! i) = p \<and> node_hit wm (ws ! i) (sint qx) (sint qy)
               \<and> (\<forall>j < i. \<not> node_hit wm (ws ! j) (sint qx) (sint qy))))
     \<and> (r = None \<longleftrightarrow> (\<forall>n \<in> set ws. \<not> node_hit wm n (sint qx) (sint qy)))"
proof -
  assume a: "widget_getbycoords wm ori ws wd ht px py = (r, qx, qy)"
  note parts = widget_getbycoords_parts [OF a]
  have sx: "sint qx = (case ori of South \<Rightarrow> sint py | North \<Rightarrow> int16_of (ht - sint py)
                   | East \<Rightarrow> sint px)"
    unfolding parts(1)
    by (cases ori) (simp_all only: orientation_t.case sint_word_of_int_int16_of)
  have sy: "sint qy = (case ori of South \<Rightarrow> int16_of (wd - sint px) | North \<Rightarrow> sint px
                   | East \<Rightarrow> sint py)"
    unfolding parts(2)
    by (cases ori) (simp_all only: orientation_t.case sint_word_of_int_int16_of)
  from parts(1,2) sx sy parts(3,4) parts(5) parts(6) show ?thesis
    by blast
qed

theorem widget_getbycoords_first_visible_hit_witness:
  "widget_getbycoords scenario_widgets South scenario_nodes 100 20 10 5 = (Some 2, 5, 90)
   \<and> sint (90 :: 16 word) = 100 - sint (10 :: 16 word)
   \<and> (\<exists>i < length scenario_nodes. widget (scenario_nodes ! i) = 2
         \<and> node_hit scenario_widgets (scenario_nodes ! i) (sint (5 :: 16 word)) (sint (90 :: 16 word))
         \<and> (\<forall>j < i. \<not> node_hit scenario_widgets (scenario_nodes ! j)
                        (sint (5 :: 16 word)) (sint (90 :: 16 word))))
   \<and> widget_getbycoords scenario_widgets South [scenario_far_node] 40000 20 0 5
       = (Some 1, 5, 40000)
   \<and> sint (40000 :: 16 word) = int16_of (40000 - sint (0 :: 16 word))
   \<and> int16_of 40000 = - 25536
   \<and> node_hit scenario_widgets scenario_far_node (sint (5 :: 16 word)) (int16_of 40000)"
proof -
  have e: "widget_getbycoords scenario_widgets South scenario_nodes 100 20 10 5 = (Some 2, 5, 90)"
    by (simp add: widget_getbycoords_def scenario_nodes_def scenario_widgets_def
          scenario_widget_def)
  note t = widget_getbycoords_first_visible_hit [OF e]
  from t have "sint (90 :: 16 word) = 100 - sint (10 :: 16 word)"
    by simp
  moreover from t have "Some (2 :: nat) = Some 2 \<longleftrightarrow>
      (\<exists>i < length scenario_nodes. widget (scenario_nodes ! i) = 2
         \<and> node_hit scenario_widgets (scenario_nodes ! i) (sint (5 :: 16 word)) (sint (90 :: 16 word))
         \<and> (\<forall>j < i. \<not> node_hit scenario_widgets (scenario_nodes ! j)
                        (sint (5 :: 16 word)) (sint (90 :: 16 word))))"
    by blast
  ultimately have first: "sint (90 :: 16 word) = 100 - sint (10 :: 16 word)
     \<and> (\<exists>i < length scenario_nodes. widget (scenario_nodes ! i) = 2
         \<and> node_hit scenario_widgets (scenario_nodes ! i) (sint (5 :: 16 word)) (sint (90 :: 16 word))
         \<and> (\<forall>j < i. \<not> node_hit scenario_widgets (scenario_nodes ! j)
                        (sint (5 :: 16 word)) (sint (90 :: 16 word))))"
    by blast
  have f: "widget_getbycoords scenario_widgets South [scenario_far_node] 40000 20 0 5
             = (Some 1, 5, 40000)"
    by (simp add: widget_getbycoords_def scenario_far_node_def scenario_widgets_def
          scenario_widget_def)
  note u = widget_getbycoords_first_visible_hit [OF f, unfolded orientation_t.case]
  have v: "int16_of 40000 = - 25536"
    by (simp add: int16_of_def)
  from u have w: "sint (40000 :: 16 word) = int16_of (40000 - sint (0 :: 16 word))"
    by blast
  from u have "Some (1 :: nat) = Some 1 \<longleftrightarrow>
      (\<exists>i < length [scenario_far_node]. widget ([scenario_far_node] ! i) = 1
         \<and> node_hit scenario_widgets ([scenario_far_node] ! i)
              (sint (5 :: 16 word)) (sint (40000 :: 16 word))
         \<and> (\<forall>j < i. \<not> node_hit scenario_widgets ([scenario_far_node] ! j)
                        (sint (5 :: 16 word)) (sint (40000 :: 16 word))))"
    by blast
  then have "node_hit scenario_widgets scenario_far_node
               (sint (5 :: 16 word)) (sint (40000 :: 16 word))"
    by auto
  with w have "node_hit scenario_widgets scenario_far_node
                 (sint (5 :: 16 word)) (int16_of 40000)"
    by simp
  with e first f w v show ?thesis by blast
qed

text \<open>
  Without the reduction the statement fails: it would take the new y for South to be
  \<open>width - old x\<close> itself. For a surface of width 40000 and the point \<open>x = 0\<close>, \<open>y = 5\<close> the difference
  40000 does not fit the cell and is stored as -25536: the function returns the widget of
  a node that starts at \<open>y = -25536\<close>, although the point \<open>(5, 40000)\<close> is not in
  that node.
\<close>

theorem widget_getbycoords_unreduced_counterexample:
  "fst (widget_getbycoords scenario_widgets South [scenario_far_node] 40000 20 0 5) = Some 1
   \<and> \<not> node_hit scenario_widgets scenario_far_node
         (sint (5 :: 16 word)) (40000 - sint (0 :: 16 word))"
  by (simp add: widget_getbycoords_def node_hit_def scenario_far_node_def
        scenario_widgets_def scenario_widget_def)

subsection \<open>Invalidation by widget\<close>

lemma bywidget_foreach_wnode_eq:
  "bywidget_foreach_wnode w ns wibox =
     (if w \<in> widget ` set ns then wibox\<lparr>need_update := True\<rparr> else wibox)"
  by (induction ns) auto

lemma need_update_True_id: "need_update wibox \<Longrightarrow> wibox\<lparr>need_update := True\<rparr> = wibox"
  by simp

lemma bywidget_step:
  "(if \<not> need_update (h p) then h(p := bywidget_foreach_wnode w (widgets (h p)) (h p)) else h)
     = h(p := invalidated w (h p))"
proof (cases "need_update (h p)")
  case True
  then have "invalidated w (h p) = h p"
    by (simp add: invalidated_def)
  with True show ?thesis by simp
next
  case False
  then show ?thesis
    by (simp add: invalidated_def bywidget_foreach_wnode_eq)
qed

lemma invalidated_idem: "invalidated w (invalidated w wibox) = invalidated w wibox"
  by (simp add: invalidated_def)

lemma bywidget_foreach_wibox_eq:
  "bywidget_foreach_wibox w ps h = (\<lambda>q. if q \<in> set ps then invalidated w (h q) else h q)"
proof (induction ps arbitrary: h)
  case Nil
  show ?case by simp
next
  case (Cons p ps)
  have "bywidget_foreach_wibox w (p # ps) h
          = bywidget_foreach_wibox w ps (h(p := invalidated w (h p)))"
    by (simp only: bywidget_foreach_wibox.simps bywidget_step)
  also have "\<dots> = (\<lambda>q. if q \<in> set ps then invalidated w ((h(p := invalidated w (h p))) q)
                         else (h(p := invalidated w (h p))) q)"
    by (rule Cons.IH)
  also have "\<dots> = (\<lambda>q. if q \<in> set (p # ps) then invalidated w (h q) else h q)"
    by (rule ext) (simp add: invalidated_idem)
  finally show ?case .
qed

lemma bywidget_client_step:
  "(case titlebar c of
      None \<Rightarrow> h
    | Some t \<Rightarrow>
        if \<not> need_update (h t)
        then h(t := bywidget_foreach_wnode w (widgets (h t)) (h t))
        else h)
   = (\<lambda>q. if titlebar c = Some q then invalidated w (h q) else h q)"
proof (cases "titlebar c")
  case None
  then show ?thesis by simp
next
  case (Some t)
  have "(if \<not> need_update (h t) then h(t := bywidget_foreach_wnode w (widgets (h t)) (h t))
         else h) = h(t := invalidated w (h t))"
    by (rule bywidget_step)
  with Some show ?thesis by (auto simp: fun_eq_iff)
qed

lemma bywidget_foreach_client_eq:
  "bywidget_foreach_client w cs h
     = (\<lambda>q. if q \<in> titlebars cs then invalidated w (h q) else h q)"
proof (induction cs arbitrary: h)
  case Nil
  show ?case by (simp add: titlebars_def)
next
  case (Cons c cs)
  let ?h1 = "\<lambda>q. if titlebar c = Some q then invalidated w (h q) else h q"
  have "bywidget_foreach_client w (c # cs) h = bywidget_foreach_client w cs ?h1"
    by (simp only: bywidget_foreach_client.simps bywidget_client_step)
  also have "\<dots> = (\<lambda>q. if q \<in> titlebars cs then invalidated w (?h1 q) else ?h1 q)"
    by (rule Cons.IH)
  also have "\<dots> = (\<lambda>q. if q \<in> titlebars (c # cs) then invalidated w (h q) else h q)"
    by (rule ext) (auto simp: titlebars_def invalidated_idem)
  finally show ?case .
qed

lemma widget_invalidate_bywidget_heap:
  "wibox_heap (widget_invalidate_bywidget w s) p =
     (if p \<in> set (wiboxes s) \<union> titlebars (clients s)
      then invalidated w (wibox_heap s p) else wibox_heap s p)"
  by (simp add: widget_invalidate_bywidget_def bywidget_foreach_client_eq
        bywidget_foreach_wibox_eq invalidated_idem)

text \<open>
  Claim C3. \<^verbatim>\<open>widget_invalidate_bywidget\<close> sets the dirty flag on every managed
  surface (a bar of the global list or the titlebar of a client) whose node collection
  contains the widget, and leaves the flag as it was, also when it was false, on every
  managed surface whose node collection does not contain it. Nothing but the dirty flags
  changes: every other field of every surface, the surfaces that are not managed, and the
  rest of the state are as before.
\<close>

theorem widget_invalidate_bywidget_dirty:
  "(p \<in> set (wiboxes s) \<union> titlebars (clients s) \<and> w \<in> widget ` set (widgets (wibox_heap s p))
      \<longrightarrow> need_update (wibox_heap (widget_invalidate_bywidget w s) p))
   \<and> (p \<in> set (wiboxes s) \<union> titlebars (clients s) \<and> w \<notin> widget ` set (widgets (wibox_heap s p))
      \<longrightarrow> need_update (wibox_heap (widget_invalidate_bywidget w s) p)
            = need_update (wibox_heap s p))
   \<and> (p \<notin> set (wiboxes s) \<union> titlebars (clients s)
      \<longrightarrow> wibox_heap (widget_invalidate_bywidget w s) p = wibox_heap s p)
   \<and> wibox_heap (widget_invalidate_bywidget w s) p
        = (wibox_heap s p)\<lparr>need_update := need_update (wibox_heap (widget_invalidate_bywidget w s) p)\<rparr>
   \<and> widget_invalidate_bywidget w s
        = s\<lparr>wibox_heap := wibox_heap (widget_invalidate_bywidget w s)\<rparr>"
proof -
  have "widget_invalidate_bywidget w s
          = s\<lparr>wibox_heap := wibox_heap (widget_invalidate_bywidget w s)\<rparr>"
    by (simp add: widget_invalidate_bywidget_def)
  then show ?thesis
    by (simp add: widget_invalidate_bywidget_heap invalidated_def)
qed

theorem widget_invalidate_bywidget_dirty_witness:
  "need_update (wibox_heap (widget_invalidate_bywidget 2 (scenario_state scenario_surfaces)) 0)
   \<and> \<not> need_update (wibox_heap (widget_invalidate_bywidget 2 (scenario_state scenario_surfaces)) 1)
   \<and> need_update (wibox_heap (widget_invalidate_bywidget 2 (scenario_state scenario_surfaces)) 2)
   \<and> wibox_heap (widget_invalidate_bywidget 2 (scenario_state scenario_surfaces)) 5
       = scenario_surfaces 5"
proof -
  let ?s = "scenario_state scenario_surfaces"
  have m: "set (wiboxes ?s) \<union> titlebars (clients ?s) = {0, 1, 2}"
    by (auto simp: scenario_state_def titlebars_def)
  have h: "wibox_heap ?s = scenario_surfaces"
    by (simp add: scenario_state_def)
  have c: "(2 :: nat) \<in> widget ` set (widgets (scenario_surfaces q)) \<longleftrightarrow> q \<noteq> 1" for q
    by (simp add: scenario_surfaces_def scenario_wibox_def scenario_nodes_def)
  have n: "\<not> need_update (scenario_surfaces q)" for q
    by (simp add: scenario_surfaces_def scenario_wibox_def)
  from widget_invalidate_bywidget_dirty [of 0 ?s 2] m h c n
  have "need_update (wibox_heap (widget_invalidate_bywidget 2 ?s) 0)" by simp
  moreover from widget_invalidate_bywidget_dirty [of 1 ?s 2] m h c n
  have "\<not> need_update (wibox_heap (widget_invalidate_bywidget 2 ?s) 1)" by simp
  moreover from widget_invalidate_bywidget_dirty [of 2 ?s 2] m h c n
  have "need_update (wibox_heap (widget_invalidate_bywidget 2 ?s) 2)" by simp
  moreover from widget_invalidate_bywidget_dirty [of 5 ?s 2] m h
  have "wibox_heap (widget_invalidate_bywidget 2 ?s) 5 = scenario_surfaces 5" by simp
  ultimately show ?thesis by blast
qed

subsection \<open>The policy path of widget\_geometries\<close>

text \<open>
  The geometry handed to the policy: the origin is zeroed and the sides are exchanged
  unless the orientation is East.
\<close>

lemma policy_geometry:
  "(let g0 = geometry wibox;
        g1 = g0\<lparr>x := 0\<rparr>;
        g2 = g1\<lparr>y := 0\<rparr>
    in if orientation wibox \<noteq> East
       then (let i = height g2; g2a = g2\<lparr>height := width g2\<rparr> in g2a\<lparr>width := i\<rparr>)
       else g2)
   = \<lparr>x = 0, y = 0,
      width = (if orientation wibox = East then width (geometry wibox)
               else height (geometry wibox)),
      height = (if orientation wibox = East then height (geometry wibox)
                else width (geometry wibox))\<rparr>"
  by (cases "geometry wibox") (simp add: Let_def)

lemma widget_geometries_policy:
  assumes t: "widgets_table (wibox_heap s p) = Some t"
    and f: "table_get t (LString ''layout'') = LFunction f"
  shows "widget_geometries p s =
     (let wibox = wibox_heap s p;
          args = [area_value
                    \<lparr>x = 0, y = 0,
                     width = (if orientation wibox = East then width (geometry wibox)
                              else height (geometry wibox)),
                     height = (if orientation wibox = East then height (geometry wibox)
                               else width (geometry wibox))\<rparr>,
                  LTable t, LNumber (screen wibox)];
          s1 = s\<lparr>trace := trace s @ [Lua_call f args]\<rparr>
      in case lua_functions s f args of
           None \<Rightarrow> (False, s1\<lparr>stack := LFunction f # LTable t # stack s\<rparr>)
         | Some v \<Rightarrow> (True, s1\<lparr>stack := v # stack s\<rparr>))"
proof -
  let ?wibox = "wibox_heap s p"
  have st1: "lua_getfield (- 1) ''layout'' (push_widgets_table p ?wibox (stack s))
               = LFunction f # LTable t # stack s"
    using t f
    by (simp add: lua_getfield_def push_widgets_table_def lua_remove_def
          luaA_object_push_item_def luaA_object_push_def lua_at_def stack_pos_def)
  have isf: "lua_isfunction (- 1) (LFunction f # LTable t # stack s)"
    by (simp add: lua_isfunction_def lua_at_def stack_pos_def)
  show ?thesis
    unfolding widget_geometries_def
    using t
    apply (simp only: Let_def st1 isf if_True policy_geometry [unfolded Let_def] option.simps
             not_False_eq_True not_None_eq simp_thms)
    apply (simp add: luaA_dofunction_def luaA_pusharea_def lua_pushvalue_def lua_pushnumber_def
             lua_at_def stack_pos_def lua_pop_def lua_insert_def Let_def
             split: option.splits)
    done
qed

text \<open>
  Claim C1. When the widget table of the surface has a callable layout policy,
  \<^verbatim>\<open>widget_geometries\<close> calls the policy once, and the first argument it passes is
  the geometry of the surface with \<open>x\<close> and \<open>y\<close> zeroed; width and height are
  exchanged for every orientation other than East and passed as they are for East. (The
  second argument is the widget table, the third the index of the screen.)
\<close>

theorem widget_geometries_policy_geometry:
  "widgets_table (wibox_heap s p) = Some t \<Longrightarrow>
   table_get t (LString ''layout'') = LFunction f \<Longrightarrow>
   trace (snd (widget_geometries p s)) =
     trace s @
       [Lua_call f
          [area_value
             \<lparr>x = 0, y = 0,
              width = (if orientation (wibox_heap s p) = East
                       then width (geometry (wibox_heap s p))
                       else height (geometry (wibox_heap s p))),
              height = (if orientation (wibox_heap s p) = East
                        then height (geometry (wibox_heap s p))
                        else width (geometry (wibox_heap s p)))\<rparr>,
           LTable t, LNumber (screen (wibox_heap s p))]]"
  by (simp add: widget_geometries_policy Let_def split: option.splits)

lemma scenario_policy_table_layout:
  "table_get (scenario_policy_table f) (LString ''layout'') = LFunction f"
  by (simp add: table_get_def scenario_policy_table_def scenario_table_def)

theorem widget_geometries_policy_geometry_witness:
  "trace (snd (widget_geometries 0
      (scenario_state (\<lambda>q. scenario_wibox South 0 (Some (scenario_policy_table 1)) []))))
     = [Lua_call 1 [area_value \<lparr>x = 0, y = 0, width = 20, height = 100\<rparr>,
                    LTable (scenario_policy_table 1), LNumber 1]]
   \<and> trace (snd (widget_geometries 0
      (scenario_state (\<lambda>q. scenario_wibox East 0 (Some (scenario_policy_table 1)) []))))
     = [Lua_call 1 [area_value \<lparr>x = 0, y = 0, width = 100, height = 20\<rparr>,
                    LTable (scenario_policy_table 1), LNumber 1]]"
proof -
  let ?s = "\<lambda>ori. scenario_state (\<lambda>q. scenario_wibox ori 0 (Some (scenario_policy_table 1)) [])"
  have t: "widgets_table (wibox_heap (?s ori) 0) = Some (scenario_policy_table 1)" for ori
    by (simp add: scenario_state_def scenario_wibox_def)
  have g: "wibox_heap (?s ori) 0 = scenario_wibox ori 0 (Some (scenario_policy_table 1)) []"
    "trace (?s ori) = []" for ori
    by (simp_all add: scenario_state_def)
  from widget_geometries_policy_geometry [OF t scenario_policy_table_layout, of South, unfolded g]
  have "trace (snd (widget_geometries 0 (?s South)))
     = [Lua_call 1 [area_value \<lparr>x = 0, y = 0, width = 20, height = 100\<rparr>,
                    LTable (scenario_policy_table 1), LNumber 1]]"
    by (simp add: scenario_wibox_def)
  moreover
  from widget_geometries_policy_geometry [OF t scenario_policy_table_layout, of East, unfolded g]
  have "trace (snd (widget_geometries 0 (?s East)))
     = [Lua_call 1 [area_value \<lparr>x = 0, y = 0, width = 100, height = 20\<rparr>,
                    LTable (scenario_policy_table 1), LNumber 1]]"
    by (simp add: scenario_wibox_def)
  ultimately show ?thesis by blast
qed

subsection \<open>The default path of widget\_geometries\<close>

lemma table_set_fresh:
  "k \<notin> fst ` set kvs \<Longrightarrow> v \<noteq> LNil \<Longrightarrow> table_set kvs k v = kvs @ [(k, v)]"
  by (induction kvs) auto

lemma area_value_not_nil: "area_value a \<noteq> LNil"
  by (simp add: area_value_def)

lemma default_loop_geometry:
  "(let g0 = extents w;
        g1 = g0\<lparr>y := 0\<rparr>;
        g2 = g1\<lparr>x := 0\<rparr>;
        g3 = g2\<lparr>width := min (width (geometry wibox)) (width g2)\<rparr>
    in g3\<lparr>height := min (height (geometry wibox)) (height g3)\<rparr>)
   = default_geometry wibox w"
  by (cases "extents w") (simp add: Let_def default_geometry_def)

lemma widget_geometries_for_step:
  assumes "LNumber (int i + 1) \<notin> fst ` set kvs"
  shows "widget_geometries_for wibox wh (n # ns) i (LTable kvs # r) =
           widget_geometries_for wibox wh ns (Suc i)
             (LTable (kvs @ [(LNumber (int i + 1),
                              area_value (default_geometry wibox (wh (widget n))))]) # r)"
proof -
  have "lua_settable (- 3)
          (luaA_pusharea (default_geometry wibox (wh (widget n)))
             (lua_pop 1 (lua_pushnumber (screen wibox)
                (lua_pushnumber (int i + 1) (LTable kvs # r)))))
        = LTable (kvs @ [(LNumber (int i + 1),
                          area_value (default_geometry wibox (wh (widget n))))]) # r"
    using assms
    by (simp add: lua_settable_def luaA_pusharea_def lua_pop_def lua_pushnumber_def
          stack_pos_def table_set_fresh area_value_not_nil)
  then show ?thesis
    using default_loop_geometry [of "wh (widget n)" wibox]
    by (simp add: Let_def)
qed

lemma widget_geometries_for_eq:
  "\<forall>j \<ge> i. LNumber (int j + 1) \<notin> fst ` set kvs \<Longrightarrow>
   widget_geometries_for wibox wh ns i (LTable kvs # r)
     = LTable (kvs @ default_entries wibox wh i ns) # r"
proof (induction ns arbitrary: i kvs)
  case Nil
  show ?case by simp
next
  case (Cons n ns)
  let ?e = "(LNumber (int i + 1), area_value (default_geometry wibox (wh (widget n))))"
  from Cons.prems have fresh: "LNumber (int i + 1) \<notin> fst ` set kvs" by blast
  have inv: "\<forall>j \<ge> Suc i. LNumber (int j + 1) \<notin> fst ` set (kvs @ [?e])"
  proof (intro allI impI)
    fix j assume j: "Suc i \<le> j"
    then have "i \<le> j" by simp
    with Cons.prems have "LNumber (int j + 1) \<notin> fst ` set kvs" by blast
    moreover from j have "int j + 1 \<noteq> int i + 1" by simp
    ultimately show "LNumber (int j + 1) \<notin> fst ` set (kvs @ [?e])" by simp
  qed
  have "widget_geometries_for wibox wh (n # ns) i (LTable kvs # r)
          = widget_geometries_for wibox wh ns (Suc i) (LTable (kvs @ [?e]) # r)"
    by (rule widget_geometries_for_step [OF fresh])
  also have "\<dots> = LTable ((kvs @ [?e]) @ default_entries wibox wh (Suc i) ns) # r"
    by (rule Cons.IH [OF inv])
  finally show ?case by simp
qed

lemma default_entries_get:
  "k < length ns \<Longrightarrow>
   table_get (default_entries wibox wh i ns) (LNumber (int (i + k) + 1))
     = area_value (default_geometry wibox (wh (widget (ns ! k))))"
proof (induction ns arbitrary: i k)
  case Nil
  then show ?case by simp
next
  case (Cons n ns)
  show ?case
  proof (cases k)
    case 0
    then show ?thesis by (simp add: table_get_def)
  next
    case (Suc m)
    with Cons.prems have m: "m < length ns" by simp
    have "table_get (default_entries wibox wh i (n # ns)) (LNumber (int (i + k) + 1))
            = table_get (default_entries wibox wh (Suc i) ns) (LNumber (int (Suc i + m) + 1))"
      using Suc by (simp add: table_get_def)
    also have "\<dots> = area_value (default_geometry wibox (wh (widget (ns ! m))))"
      by (rule Cons.IH [OF m])
    finally show ?thesis using Suc by simp
  qed
qed

lemma default_entries_length: "length (default_entries wibox wh i ns) = length ns"
  by (induction ns arbitrary: i) auto

lemma widget_geometries_default:
  assumes "\<not> has_policy (wibox_heap s p)"
  shows "widget_geometries p s =
     (True,
      s\<lparr>wibox_heap := (wibox_heap s)
           (p := (wibox_heap s p)\<lparr>widgets := flattened (wibox_heap s p)\<rparr>),
        stack := LTable (default_entries (wibox_heap s p) (widget_heap s) 0
                           (flattened (wibox_heap s p)))
                 # (case widgets_table (wibox_heap s p) of None \<Rightarrow> [] | Some t \<Rightarrow> [LTable t])
                 @ stack s\<rparr>)"
proof (cases "widgets_table (wibox_heap s p)")
  case None
  have loop: "widget_geometries_for (wibox_heap s p) (widget_heap s)
                (luaA_table2widgets LNil []) 0 (LTable [] # stack s)
              = LTable ([] @ default_entries (wibox_heap s p) (widget_heap s) 0
                               (luaA_table2widgets LNil [])) # stack s"
    by (rule widget_geometries_for_eq) simp
  show ?thesis
    unfolding widget_geometries_def
    using None loop
    by (simp add: Let_def lua_pushnil_def lua_isfunction_def lua_at_def stack_pos_def
          lua_pop_def push_widgets_table_def lua_remove_def luaA_object_push_item_def
          luaA_object_push_def table2widgets_top_def lua_newtable_def flattened_def)
next
  case (Some t)
  with assms have nf: "\<not> (case table_get t (LString ''layout'') of LFunction f \<Rightarrow> True | _ \<Rightarrow> False)"
    by (simp add: has_policy_def)
  have loop: "widget_geometries_for (wibox_heap s p) (widget_heap s)
                (luaA_table2widgets (LTable t) []) 0 (LTable [] # LTable t # stack s)
              = LTable ([] @ default_entries (wibox_heap s p) (widget_heap s) 0
                               (luaA_table2widgets (LTable t) [])) # LTable t # stack s"
    by (rule widget_geometries_for_eq) simp
  show ?thesis
    unfolding widget_geometries_def
    using Some nf loop
    by (simp add: Let_def lua_getfield_def lua_isfunction_def lua_at_def stack_pos_def
          lua_pop_def push_widgets_table_def lua_remove_def luaA_object_push_item_def
          luaA_object_push_def table2widgets_top_def lua_newtable_def flattened_def)
qed

text \<open>
  Claim C2. On the default path (no callable policy) \<^verbatim>\<open>widget_geometries\<close>
  succeeds, the node collection becomes the widgets flattened from the widget table, and
  the table of computed geometries it leaves on the stack has one entry per node: the
  entry of the node \<open>k\<close> (key \<open>k + 1\<close>) is \<open>x = 0\<close>, \<open>y = 0\<close>,
  \<open>width = min(surface.width, natural width)\<close>,
  \<open>height = min(surface.height, natural height)\<close>, the natural size being the extents
  of the node's widget. For the surface of width 100 and height 20, orientation South, and
  one widget of extents (40, 30), the geometry is \<open>{x: 0, y: 0, width: 40, height: 20}\<close>.
\<close>

theorem widget_geometries_default_geometry:
  "\<not> has_policy (wibox_heap s p) \<Longrightarrow>
   fst (widget_geometries p s)
   \<and> widgets (wibox_heap (snd (widget_geometries p s)) p) = flattened (wibox_heap s p)
   \<and> (\<exists>kvs. hd (stack (snd (widget_geometries p s))) = LTable kvs
         \<and> length kvs = length (flattened (wibox_heap s p))
         \<and> (\<forall>k < length (flattened (wibox_heap s p)).
               table_get kvs (LNumber (int k + 1)) =
                 area_value
                   \<lparr>x = 0, y = 0,
                    width = min (width (geometry (wibox_heap s p)))
                              (width (extents (widget_heap s
                                 (widget (flattened (wibox_heap s p) ! k))))),
                    height = min (height (geometry (wibox_heap s p)))
                               (height (extents (widget_heap s
                                  (widget (flattened (wibox_heap s p) ! k)))))\<rparr>))"
proof -
  assume np: "\<not> has_policy (wibox_heap s p)"
  let ?ns = "flattened (wibox_heap s p)"
  let ?kvs = "default_entries (wibox_heap s p) (widget_heap s) 0 ?ns"
  note e = widget_geometries_default [OF np]
  have "hd (stack (snd (widget_geometries p s))) = LTable ?kvs"
    by (simp add: e)
  moreover have "length ?kvs = length ?ns"
    by (rule default_entries_length)
  moreover have "\<forall>k < length ?ns.
      table_get ?kvs (LNumber (int k + 1)) =
        area_value
          \<lparr>x = 0, y = 0,
           width = min (width (geometry (wibox_heap s p)))
                     (width (extents (widget_heap s (widget (?ns ! k))))),
           height = min (height (geometry (wibox_heap s p)))
                      (height (extents (widget_heap s (widget (?ns ! k)))))\<rparr>"
    using default_entries_get [of _ ?ns "wibox_heap s p" "widget_heap s" 0]
    by (simp add: default_geometry_def)
  moreover have "fst (widget_geometries p s)"
    by (simp add: e)
  moreover have "widgets (wibox_heap (snd (widget_geometries p s)) p) = ?ns"
    by (simp add: e)
  ultimately show ?thesis by blast
qed

theorem widget_geometries_default_geometry_witness:
  "hd (stack (snd (widget_geometries 0
      (scenario_state (\<lambda>q. scenario_wibox South 0 (Some [(LNumber 1, LWidget 1)]) [])))))
     = LTable [(LNumber 1, area_value \<lparr>x = 0, y = 0, width = 40, height = 20\<rparr>)]
   \<and> (\<exists>kvs. hd (stack (snd (widget_geometries 0
         (scenario_state (\<lambda>q. scenario_wibox South 0 (Some [(LNumber 1, LWidget 1)]) [])))))
          = LTable kvs
        \<and> length kvs = 1
        \<and> table_get kvs (LNumber 1) = area_value \<lparr>x = 0, y = 0, width = 40, height = 20\<rparr>)"
proof -
  let ?wb = "scenario_wibox South 0 (Some [(LNumber 1, LWidget 1)]) []"
  let ?s = "scenario_state (\<lambda>q. ?wb)"
  have h: "wibox_heap ?s 0 = ?wb" "widget_heap ?s = scenario_widgets"
    by (simp_all add: scenario_state_def)
  have np: "\<not> has_policy (wibox_heap ?s 0)"
    unfolding h by (simp add: has_policy_def scenario_wibox_def table_get_def)
  have fl: "flattened ?wb = [\<lparr>widget = 1, widget_node_t.geometry = area_zero\<rparr>]"
    by (simp add: flattened_def scenario_wibox_def)
  have geo: "geometry (scenario_wibox ori a t ns) = \<lparr>x = 3, y = 4, width = 100, height = 20\<rparr>"
    for ori a t ns
    by (simp add: scenario_wibox_def)
  have ext: "extents (scenario_widgets a) = \<lparr>x = 7, y = 9, width = 40, height = 30\<rparr>" for a
    by (simp add: scenario_widgets_def scenario_widget_def)
  from widget_geometries_default_geometry [OF np, unfolded h fl]
  obtain kvs where kvs: "hd (stack (snd (widget_geometries 0 ?s))) = LTable kvs"
    "length kvs = 1"
    "table_get kvs (LNumber 1) = area_value \<lparr>x = 0, y = 0, width = 40, height = 20\<rparr>"
    by (auto simp: geo ext)
  from kvs(2) obtain e where e: "kvs = [e]"
    by (cases kvs) auto
  with kvs(3) have "e = (LNumber 1, area_value \<lparr>x = 0, y = 0, width = 40, height = 20\<rparr>)"
    by (cases e) (auto simp: table_get_def area_value_def split: if_splits)
  with e kvs show ?thesis by auto
qed

subsection \<open>Resolving twice\<close>

lemma has_policy_iff:
  "has_policy wibox \<longleftrightarrow>
     (\<exists>t f. widgets_table wibox = Some t \<and> table_get t (LString ''layout'') = LFunction f)"
  by (auto simp: has_policy_def split: option.splits lua_value.splits)

lemma default_geometry_widgets_update [simp]:
  "default_geometry (wibox\<lparr>widgets := ws\<rparr>) w = default_geometry wibox w"
  by (simp add: default_geometry_def)

lemma default_entries_widgets_update [simp]:
  "default_entries (wibox\<lparr>widgets := ws\<rparr>) wh i ns = default_entries wibox wh i ns"
  by (induction ns arbitrary: i) auto

lemma flattened_widgets_update [simp]:
  "flattened (wibox\<lparr>widgets := ws\<rparr>) = flattened wibox"
  by (simp add: flattened_def)

lemma has_policy_widgets_update [simp]:
  "has_policy (wibox\<lparr>widgets := ws\<rparr>) = has_policy wibox"
  by (simp add: has_policy_def)

lemma widget_geometries_twice_policy:
  assumes t: "widgets_table (wibox_heap s p) = Some t"
    and f: "table_get t (LString ''layout'') = LFunction f"
  shows "fst (widget_geometries p (snd (widget_geometries p s))) = fst (widget_geometries p s)"
    and "widgets (wibox_heap (snd (widget_geometries p (snd (widget_geometries p s)))) p)
           = widgets (wibox_heap (snd (widget_geometries p s)) p)"
    and "fst (widget_geometries p s) \<Longrightarrow>
           hd (stack (snd (widget_geometries p (snd (widget_geometries p s)))))
             = hd (stack (snd (widget_geometries p s)))"
proof -
  let ?s1 = "snd (widget_geometries p s)"
  have h1: "wibox_heap ?s1 = wibox_heap s" and l1: "lua_functions ?s1 = lua_functions s"
    by (simp_all add: widget_geometries_policy [OF t f] Let_def split: option.splits)
  from t h1 have t1: "widgets_table (wibox_heap ?s1 p) = Some t" by simp
  note e = widget_geometries_policy [OF t f] and e1 = widget_geometries_policy [OF t1 f]
  show "fst (widget_geometries p ?s1) = fst (widget_geometries p s)"
    unfolding e1 unfolding h1 l1 unfolding e
    by (simp add: Let_def split: option.splits)
  show "widgets (wibox_heap (snd (widget_geometries p ?s1)) p) = widgets (wibox_heap ?s1 p)"
    unfolding e1 by (simp add: Let_def split: option.splits)
  show "hd (stack (snd (widget_geometries p ?s1))) = hd (stack ?s1)"
    if "fst (widget_geometries p s)"
    using that unfolding e1 unfolding h1 l1 unfolding e
    by (simp add: Let_def split: option.splits)
qed

lemma widget_geometries_twice_default:
  assumes np: "\<not> has_policy (wibox_heap s p)"
  shows "fst (widget_geometries p (snd (widget_geometries p s))) = fst (widget_geometries p s)"
    and "widgets (wibox_heap (snd (widget_geometries p (snd (widget_geometries p s)))) p)
           = widgets (wibox_heap (snd (widget_geometries p s)) p)"
    and "hd (stack (snd (widget_geometries p (snd (widget_geometries p s)))))
           = hd (stack (snd (widget_geometries p s)))"
proof -
  let ?s1 = "snd (widget_geometries p s)"
  note e = widget_geometries_default [OF np]
  have np1: "\<not> has_policy (wibox_heap ?s1 p)"
    using np by (simp add: e)
  note e1 = widget_geometries_default [OF np1]
  show "fst (widget_geometries p ?s1) = fst (widget_geometries p s)"
    by (simp add: e1) (simp add: e)
  show "widgets (wibox_heap (snd (widget_geometries p ?s1)) p) = widgets (wibox_heap ?s1 p)"
    by (simp add: e1) (simp add: e)
  show "hd (stack (snd (widget_geometries p ?s1))) = hd (stack ?s1)"
    by (simp add: e1) (simp add: e)
qed

text \<open>
  Claim C9. Resolving the geometries of a surface twice in succession, the second time
  on the state the first one left (same widget table, same extents, same surface
  geometry, same policy), gives the same outcome and an identical node collection: the
  same widgets with the same geometries in the same order; when the resolution succeeds,
  the computed geometries it leaves on the stack are the same too.
\<close>

theorem widget_geometries_idempotent:
  "fst (widget_geometries p (snd (widget_geometries p s))) = fst (widget_geometries p s)
   \<and> widgets (wibox_heap (snd (widget_geometries p (snd (widget_geometries p s)))) p)
       = widgets (wibox_heap (snd (widget_geometries p s)) p)
   \<and> (fst (widget_geometries p s) \<longrightarrow>
         hd (stack (snd (widget_geometries p (snd (widget_geometries p s)))))
           = hd (stack (snd (widget_geometries p s))))"
proof (cases "has_policy (wibox_heap s p)")
  case True
  then obtain t f where "widgets_table (wibox_heap s p) = Some t"
    and "table_get t (LString ''layout'') = LFunction f"
    unfolding has_policy_iff by blast
  then show ?thesis
    using widget_geometries_twice_policy [of s p t f] by blast
next
  case False
  then show ?thesis
    using widget_geometries_twice_default [of s p] by blast
qed

lemma scenario_default_first:
  "fst (widget_geometries 0
      (scenario_state (\<lambda>q. scenario_wibox South 0 (Some scenario_table) [])))"
  "widgets (wibox_heap (snd (widget_geometries 0
      (scenario_state (\<lambda>q. scenario_wibox South 0 (Some scenario_table) [])))) 0)
     = [\<lparr>widget = 1, widget_node_t.geometry = area_zero\<rparr>,
        \<lparr>widget = 3, widget_node_t.geometry = area_zero\<rparr>]"
  "hd (stack (snd (widget_geometries 0
      (scenario_state (\<lambda>q. scenario_wibox South 0 (Some scenario_table) [])))))
     = LTable [(LNumber 1, area_value \<lparr>x = 0, y = 0, width = 40, height = 20\<rparr>),
               (LNumber 2, area_value \<lparr>x = 0, y = 0, width = 40, height = 20\<rparr>)]"
proof -
  let ?wb = "scenario_wibox South 0 (Some scenario_table) []"
  let ?s = "scenario_state (\<lambda>q. ?wb)"
  have h: "wibox_heap ?s 0 = ?wb" "widget_heap ?s = scenario_widgets"
    by (simp_all add: scenario_state_def)
  have np: "\<not> has_policy (wibox_heap ?s 0)"
    unfolding h by (simp add: has_policy_def scenario_wibox_def table_get_def scenario_table_def)
  have fl: "flattened ?wb = [\<lparr>widget = 1, widget_node_t.geometry = area_zero\<rparr>,
                             \<lparr>widget = 3, widget_node_t.geometry = area_zero\<rparr>]"
    by (simp add: flattened_def scenario_wibox_def scenario_table_def)
  note e = widget_geometries_default [OF np, unfolded h fl]
  show "fst (widget_geometries 0 ?s)"
    by (simp add: e)
  show "widgets (wibox_heap (snd (widget_geometries 0 ?s)) 0)
     = [\<lparr>widget = 1, widget_node_t.geometry = area_zero\<rparr>,
        \<lparr>widget = 3, widget_node_t.geometry = area_zero\<rparr>]"
    by (simp add: e)
  show "hd (stack (snd (widget_geometries 0 ?s)))
     = LTable [(LNumber 1, area_value \<lparr>x = 0, y = 0, width = 40, height = 20\<rparr>),
               (LNumber 2, area_value \<lparr>x = 0, y = 0, width = 40, height = 20\<rparr>)]"
    unfolding e
    by (simp add: default_geometry_def scenario_wibox_def scenario_widgets_def
          scenario_widget_def)
qed

theorem widget_geometries_idempotent_witness:
  "fst (widget_geometries 0 (snd (widget_geometries 0
      (scenario_state (\<lambda>q. scenario_wibox South 0 (Some scenario_table) [])))))
   \<and> widgets (wibox_heap (snd (widget_geometries 0 (snd (widget_geometries 0
      (scenario_state (\<lambda>q. scenario_wibox South 0 (Some scenario_table) [])))))) 0)
     = [\<lparr>widget = 1, widget_node_t.geometry = area_zero\<rparr>,
        \<lparr>widget = 3, widget_node_t.geometry = area_zero\<rparr>]
   \<and> hd (stack (snd (widget_geometries 0 (snd (widget_geometries 0
      (scenario_state (\<lambda>q. scenario_wibox South 0 (Some scenario_table) [])))))))
     = LTable [(LNumber 1, area_value \<lparr>x = 0, y = 0, width = 40, height = 20\<rparr>),
               (LNumber 2, area_value \<lparr>x = 0, y = 0, width = 40, height = 20\<rparr>)]"
  using widget_geometries_idempotent
          [of 0 "scenario_state (\<lambda>q. scenario_wibox South 0 (Some scenario_table) [])"]
    scenario_default_first
  by simp

subsection \<open>Rendering\<close>

lemma table2widgets_top_push:
  "table2widgets_top (push_widgets_table p wibox st) [] = (st, flattened wibox)"
  by (simp add: table2widgets_top_def push_widgets_table_def lua_remove_def
        luaA_object_push_item_def luaA_object_push_def stack_pos_def flattened_def
        split: option.splits)

lemma widget_render_unfold:
  "widget_render p s =
     (let c = ctx (wibox_heap s p);
          s1 = snd (widget_geometries p s);
          wibox = wibox_heap s1 p;
          s2 = (if alpha (bg c) \<noteq> 0xffff then composite_root wibox s1 else s1)
      in if \<not> fst (widget_geometries p s) then Aborted s1
         else case widget_render_geometries wibox (lua_at (- 1) (stack s2)) 0
                     (lua_objlen (lua_at (- 1) (stack s2))) (flattened wibox) of
                None \<Rightarrow> Render_error
              | Some ws1 \<Rightarrow>
                  Rendered
                    (s2\<lparr>wibox_heap := (wibox_heap s2)(p := wibox\<lparr>widgets := ws1\<rparr>),
                        stack := lua_pop 1 (stack s2),
                        trace := trace s2 @ draw_background wibox c
                                 @ widget_render_draw (widget_heap s2) c p ws1
                                 @ rotate_to_wibox wibox c\<rparr>))"
  by (simp add: widget_render_def Let_def split_beta table2widgets_top_push
        cong: option.case_cong)

lemma widget_render_draw_eq:
  "widget_render_draw wh c p ws =
     map (\<lambda>n. Widget_draw (widget n) c (widget_node_t.geometry n) p)
       (filter (\<lambda>n. isvisible (wh (widget n))) ws)"
  by (induction ws) auto

lemma widget_geometries_frame:
  "widget_heap (snd (widget_geometries p s)) = widget_heap s"
  "\<exists>ws. wibox_heap (snd (widget_geometries p s))
          = (wibox_heap s)(p := (wibox_heap s p)\<lparr>widgets := ws\<rparr>)"
  "\<exists>calls. trace (snd (widget_geometries p s)) = trace s @ calls
            \<and> (\<forall>e \<in> set calls. is_lua_call e)"
proof -
  show "widget_heap (snd (widget_geometries p s)) = widget_heap s"
  proof (cases "has_policy (wibox_heap s p)")
    case True
    then obtain t f where "widgets_table (wibox_heap s p) = Some t"
      and "table_get t (LString ''layout'') = LFunction f"
      unfolding has_policy_iff by blast
    then show ?thesis
      by (simp add: widget_geometries_policy Let_def split: option.splits)
  next
    case False
    then show ?thesis by (simp add: widget_geometries_default)
  qed
  show "\<exists>ws. wibox_heap (snd (widget_geometries p s))
          = (wibox_heap s)(p := (wibox_heap s p)\<lparr>widgets := ws\<rparr>)"
  proof (cases "has_policy (wibox_heap s p)")
    case True
    then obtain t f where "widgets_table (wibox_heap s p) = Some t"
      and "table_get t (LString ''layout'') = LFunction f"
      unfolding has_policy_iff by blast
    then have "wibox_heap (snd (widget_geometries p s)) = wibox_heap s"
      by (simp add: widget_geometries_policy Let_def split: option.splits)
    then have "wibox_heap (snd (widget_geometries p s))
          = (wibox_heap s)(p := (wibox_heap s p)\<lparr>widgets := widgets (wibox_heap s p)\<rparr>)"
      by simp
    then show ?thesis by blast
  next
    case False
    then show ?thesis by (simp add: widget_geometries_default) blast
  qed
  show "\<exists>calls. trace (snd (widget_geometries p s)) = trace s @ calls
            \<and> (\<forall>e \<in> set calls. is_lua_call e)"
  proof (cases "has_policy (wibox_heap s p)")
    case True
    then obtain t f where "widgets_table (wibox_heap s p) = Some t"
      and "table_get t (LString ''layout'') = LFunction f"
      unfolding has_policy_iff by blast
    then have "\<exists>args. trace (snd (widget_geometries p s)) = trace s @ [Lua_call f args]"
      by (simp add: widget_geometries_policy Let_def split: option.splits)
    then obtain args where "trace (snd (widget_geometries p s)) = trace s @ [Lua_call f args]"
      by blast
    moreover have "\<forall>e \<in> set [Lua_call f args]. is_lua_call e"
      by (simp add: is_lua_call_def)
    ultimately show ?thesis by blast
  next
    case False
    then have "trace (snd (widget_geometries p s)) = trace s @ []"
      by (simp add: widget_geometries_default)
    then show ?thesis by (intro exI [of _ "[]"]) simp
  qed
qed

lemma composite_root_frame:
  "widget_heap (composite_root wibox s) = widget_heap s"
  "wibox_heap (composite_root wibox s) = wibox_heap s"
  "stack (composite_root wibox s) = stack s"
  "\<exists>evs. trace (composite_root wibox s) = trace s @ evs
          \<and> (\<forall>e \<in> set evs. \<not> is_widget_draw e \<and> \<not> is_lua_call e)"
proof -
  show "widget_heap (composite_root wibox s) = widget_heap s"
    by (simp add: composite_root_def Let_def split: option.splits orientation_t.splits)
  show "wibox_heap (composite_root wibox s) = wibox_heap s"
    by (simp add: composite_root_def Let_def split: option.splits orientation_t.splits)
  show "stack (composite_root wibox s) = stack s"
    by (simp add: composite_root_def Let_def split: option.splits orientation_t.splits)
  have "\<exists>evs. trace (composite_root wibox s) = trace s @ evs
          \<and> set evs \<subseteq> {e. \<not> is_widget_draw e \<and> \<not> is_lua_call e}"
    by (cases "orientation wibox")
      (auto simp: composite_root_def Let_def is_widget_draw_def is_lua_call_def
         split: option.splits)
  then show "\<exists>evs. trace (composite_root wibox s) = trace s @ evs
          \<and> (\<forall>e \<in> set evs. \<not> is_widget_draw e \<and> \<not> is_lua_call e)"
    by blast
qed

lemma rotate_to_wibox_widgets_update [simp]:
  "rotate_to_wibox (wibox\<lparr>widgets := ws\<rparr>) c = rotate_to_wibox wibox c"
  by (cases "orientation wibox") (simp_all add: rotate_to_wibox_def)

lemma draw_background_widgets_update [simp]:
  "draw_background (wibox\<lparr>widgets := ws\<rparr>) c = draw_background wibox c"
  by (simp add: draw_background_def)

lemma draw_background_opaque:
  "alpha (bg c) = 0xffff \<Longrightarrow>
   draw_background wibox c =
     [Draw_rectangle
        \<lparr>x = 0, y = 0, width = draw_context_t.width c, height = draw_context_t.height c\<rparr>
        True (bg c)]"
  by (simp add: draw_background_def split: option.splits)

lemma draw_background_no_draw: "\<forall>e \<in> set (draw_background wibox c). \<not> is_widget_draw e"
  by (auto simp: draw_background_def is_widget_draw_def split: option.splits)

lemma rotate_to_wibox_no_draw: "\<forall>e \<in> set (rotate_to_wibox wibox c). \<not> is_widget_draw e"
  by (cases "orientation wibox") (auto simp: rotate_to_wibox_def is_widget_draw_def)

lemma filter_none: "\<forall>e \<in> set es. \<not> P e \<Longrightarrow> filter P es = []"
  by (induction es) auto

lemma filter_all: "\<forall>e \<in> set es. P e \<Longrightarrow> filter P es = es"
  by (induction es) auto

lemma lua_call_no_draw: "is_lua_call e \<Longrightarrow> \<not> is_widget_draw e"
  by (cases e) (auto simp: is_lua_call_def is_widget_draw_def)

text \<open>What a completed render leaves, in terms of the state after the resolution.\<close>

lemma widget_render_Rendered:
  assumes "widget_render p s = Rendered s'"
  shows "\<exists>calls evs ws1.
           trace s' = trace s @ calls @ evs
             @ draw_background (wibox_heap s p) (ctx (wibox_heap s p))
             @ widget_render_draw (widget_heap s) (ctx (wibox_heap s p)) p ws1
             @ rotate_to_wibox (wibox_heap s p) (ctx (wibox_heap s p))
           \<and> (\<forall>e \<in> set calls. is_lua_call e)
           \<and> (\<forall>e \<in> set evs. \<not> is_widget_draw e \<and> \<not> is_lua_call e)
           \<and> (alpha (bg (ctx (wibox_heap s p))) = 0xffff \<longrightarrow> evs = [])
           \<and> widgets (wibox_heap s' p) = ws1
           \<and> widget_heap s' = widget_heap s"
proof -
  let ?c = "ctx (wibox_heap s p)"
  let ?s1 = "snd (widget_geometries p s)"
  let ?wibox = "wibox_heap ?s1 p"
  let ?s2 = "if alpha (bg ?c) \<noteq> 0xffff then composite_root ?wibox ?s1 else ?s1"
  from widget_geometries_frame(2) [of p s] obtain ws0
    where h1: "wibox_heap ?s1 = (wibox_heap s)(p := (wibox_heap s p)\<lparr>widgets := ws0\<rparr>)"
    by blast
  then have wb: "?wibox = (wibox_heap s p)\<lparr>widgets := ws0\<rparr>" by simp
  from widget_geometries_frame(3) [of p s] obtain calls
    where calls: "trace ?s1 = trace s @ calls" "\<forall>e \<in> set calls. is_lua_call e"
    by blast
  have wh1: "widget_heap ?s1 = widget_heap s"
    by (rule widget_geometries_frame(1))
  have "\<exists>evs. trace ?s2 = trace ?s1 @ evs
          \<and> (\<forall>e \<in> set evs. \<not> is_widget_draw e \<and> \<not> is_lua_call e)
          \<and> (alpha (bg ?c) = 0xffff \<longrightarrow> evs = [])"
  proof (cases "alpha (bg ?c) = 0xffff")
    case True
    then show ?thesis by (intro exI [of _ "[]"]) simp
  next
    case False
    with composite_root_frame(4) [of ?wibox ?s1] show ?thesis by auto
  qed
  then obtain evs where evs: "trace ?s2 = trace ?s1 @ evs"
    "\<forall>e \<in> set evs. \<not> is_widget_draw e \<and> \<not> is_lua_call e"
    "alpha (bg ?c) = 0xffff \<longrightarrow> evs = []"
    by blast
  have wh2: "widget_heap ?s2 = widget_heap s"
    using wh1 by (simp add: composite_root_frame)
  from assms obtain ws1 where
    s': "s' = ?s2\<lparr>wibox_heap := (wibox_heap ?s2)(p := ?wibox\<lparr>widgets := ws1\<rparr>),
                 stack := lua_pop 1 (stack ?s2),
                 trace := trace ?s2 @ draw_background ?wibox ?c
                          @ widget_render_draw (widget_heap ?s2) ?c p ws1
                          @ rotate_to_wibox ?wibox ?c\<rparr>"
    unfolding widget_render_unfold [of p s] Let_def
    by (auto split: if_splits option.splits)
  have "trace s' = trace s @ calls @ evs @ draw_background (wibox_heap s p) ?c
          @ widget_render_draw (widget_heap s) ?c p ws1 @ rotate_to_wibox (wibox_heap s p) ?c"
    unfolding s' wh2 by (simp add: evs(1) calls(1) wb)
  moreover have "widgets (wibox_heap s' p) = ws1"
    unfolding s' by simp
  moreover have "widget_heap s' = widget_heap s"
    unfolding s' using wh2 by simp
  ultimately show ?thesis
    using calls(2) evs(2,3) by blast
qed

lemma getopt_area_value:
  "luaA_getopt_number [(LString ''x'', LNumber ax), (LString ''y'', LNumber ay),
      (LString ''width'', LNumber aw), (LString ''height'', LNumber ah)] ''x'' d = ax"
  "luaA_getopt_number [(LString ''x'', LNumber ax), (LString ''y'', LNumber ay),
      (LString ''width'', LNumber aw), (LString ''height'', LNumber ah)] ''y'' d = ay"
  "luaA_getopt_number [(LString ''x'', LNumber ax), (LString ''y'', LNumber ay),
      (LString ''width'', LNumber aw), (LString ''height'', LNumber ah)] ''width'' d = aw"
  "luaA_getopt_number [(LString ''x'', LNumber ax), (LString ''y'', LNumber ay),
      (LString ''width'', LNumber aw), (LString ''height'', LNumber ah)] ''height'' d = ah"
  by (simp_all add: luaA_getopt_number_def table_get_def)

lemma read_back_entry:
  assumes "table_get kvs (LNumber (int i + 1)) = area_value a" and "i < length ws"
  shows "widget_render_geometries wb (LTable kvs) i (Suc k) ws =
           widget_render_geometries wb (LTable kvs) (Suc i) k
             (ws[i := (ws ! i)\<lparr>widget_node_t.geometry := a\<rparr>])"
  using assms by (cases a) (simp add: area_value_def getopt_area_value)

lemma read_back_all:
  assumes "\<forall>j. i \<le> j \<and> j < i + k \<longrightarrow> table_get kvs (LNumber (int j + 1)) = area_value (g j)"
    and "i + k \<le> length ws"
  shows "\<exists>r. widget_render_geometries wb (LTable kvs) i k ws = Some r
           \<and> length r = length ws
           \<and> (\<forall>j < length ws. r ! j =
                 (if i \<le> j \<and> j < i + k then (ws ! j)\<lparr>widget_node_t.geometry := g j\<rparr>
                  else ws ! j))"
  using assms
proof (induction k arbitrary: i ws)
  case 0
  then show ?case by simp
next
  case (Suc k)
  let ?ws = "ws[i := (ws ! i)\<lparr>widget_node_t.geometry := g i\<rparr>]"
  from Suc.prems have e: "table_get kvs (LNumber (int i + 1)) = area_value (g i)"
    and il: "i < length ws" by auto
  have step: "widget_render_geometries wb (LTable kvs) i (Suc k) ws =
           widget_render_geometries wb (LTable kvs) (Suc i) k ?ws"
    by (rule read_back_entry [OF e il])
  have p1: "\<forall>j. Suc i \<le> j \<and> j < Suc i + k \<longrightarrow>
              table_get kvs (LNumber (int j + 1)) = area_value (g j)"
    using Suc.prems(1) by auto
  have p2: "Suc i + k \<le> length ?ws"
    using Suc.prems(2) by simp
  from Suc.IH [OF p1 p2] obtain r where r:
    "widget_render_geometries wb (LTable kvs) (Suc i) k ?ws = Some r"
    "length r = length ?ws"
    "\<forall>j < length ?ws. r ! j =
        (if Suc i \<le> j \<and> j < Suc i + k then (?ws ! j)\<lparr>widget_node_t.geometry := g j\<rparr>
         else ?ws ! j)"
    by blast
  have "\<forall>j < length ws. r ! j =
          (if i \<le> j \<and> j < i + Suc k then (ws ! j)\<lparr>widget_node_t.geometry := g j\<rparr>
           else ws ! j)"
  proof (intro allI impI)
    fix j assume j: "j < length ws"
    show "r ! j = (if i \<le> j \<and> j < i + Suc k then (ws ! j)\<lparr>widget_node_t.geometry := g j\<rparr>
           else ws ! j)"
    proof (cases "j = i")
      case True
      with r(3) j il show ?thesis by simp
    next
      case False
      with r(3) j show ?thesis by auto
    qed
  qed
  with step r(1,2) show ?case by simp
qed

lemma table_len_default_entries:
  "table_len (default_entries wb wh 0 ns) = length ns"
proof -
  let ?kvs = "default_entries wb wh 0 ns"
  have "\<forall>i \<in> set [1 ..< Suc (length ?kvs)]. table_get ?kvs (LNumber (int i)) \<noteq> LNil"
  proof
    fix i assume "i \<in> set [1 ..< Suc (length ?kvs)]"
    then have i: "1 \<le> i" "i - 1 < length ns"
      by (auto simp: default_entries_length)
    from default_entries_get [OF i(2), of wb wh 0] i(1)
    have "table_get ?kvs (LNumber (int i)) = area_value (default_geometry wb (wh (widget (ns ! (i - 1)))))"
      by (simp add: of_nat_diff)
    then show "table_get ?kvs (LNumber (int i)) \<noteq> LNil"
      by (simp add: area_value_not_nil)
  qed
  then have "takeWhile (\<lambda>i. table_get ?kvs (LNumber (int i)) \<noteq> LNil) [1 ..< Suc (length ?kvs)]
               = [1 ..< Suc (length ?kvs)]"
    by (simp add: takeWhile_eq_all_conv)
  then have "table_len ?kvs = length [1 ..< Suc (length ?kvs)]"
    unfolding table_len_def by (simp only:)
  also have "\<dots> = length ns"
    by (simp del: upt_Suc add: default_entries_length)
  finally show ?thesis .
qed

text \<open>
  On the default path a render always completes, and the geometry it reads back into each
  node is the default geometry of the node's widget.
\<close>

lemma widget_render_default:
  assumes np: "\<not> has_policy (wibox_heap s p)"
  shows "\<exists>s'. widget_render p s = Rendered s'
           \<and> widgets (wibox_heap s' p) =
               map (\<lambda>n. n\<lparr>widget_node_t.geometry :=
                           default_geometry (wibox_heap s p) (widget_heap s (widget n))\<rparr>)
                 (flattened (wibox_heap s p))"
proof -
  let ?wb = "wibox_heap s p"
  let ?ns = "flattened ?wb"
  let ?kvs = "default_entries ?wb (widget_heap s) 0 ?ns"
  let ?c = "ctx ?wb"
  let ?s1 = "snd (widget_geometries p s)"
  let ?s2 = "if alpha (bg ?c) \<noteq> 0xffff then composite_root (wibox_heap ?s1 p) ?s1 else ?s1"
  note e = widget_geometries_default [OF np]
  have ok: "fst (widget_geometries p s)" by (simp add: e)
  have wb1: "wibox_heap ?s1 p = ?wb\<lparr>widgets := ?ns\<rparr>" by (simp add: e)
  have st: "lua_at (- 1) (stack ?s2) = LTable ?kvs"
    by (simp add: composite_root_frame e lua_at_def stack_pos_def)
  have len: "lua_objlen (LTable ?kvs) = length ?ns"
    by (simp add: lua_objlen_def table_len_default_entries)
  have "\<forall>j. 0 \<le> j \<and> j < 0 + length ?ns \<longrightarrow>
          table_get ?kvs (LNumber (int j + 1)) =
            area_value (default_geometry ?wb (widget_heap s (widget (?ns ! j))))"
    using default_entries_get [of _ ?ns ?wb "widget_heap s" 0] by simp
  from read_back_all [OF this, of ?ns "?wb\<lparr>widgets := ?ns\<rparr>"]
  obtain r where r:
    "widget_render_geometries (?wb\<lparr>widgets := ?ns\<rparr>) (LTable ?kvs) 0 (length ?ns) ?ns = Some r"
    "length r = length ?ns"
    "\<forall>j < length ?ns. r ! j =
        (?ns ! j)\<lparr>widget_node_t.geometry :=
           default_geometry ?wb (widget_heap s (widget (?ns ! j)))\<rparr>"
    by auto
  have req: "r = map (\<lambda>n. n\<lparr>widget_node_t.geometry :=
                           default_geometry ?wb (widget_heap s (widget n))\<rparr>) ?ns"
    using r(2,3) by (intro nth_equalityI) simp_all
  have "widget_render p s =
          Rendered (?s2\<lparr>wibox_heap := (wibox_heap ?s2)(p := (wibox_heap ?s1 p)\<lparr>widgets := r\<rparr>),
                        stack := lua_pop 1 (stack ?s2),
                        trace := trace ?s2 @ draw_background (wibox_heap ?s1 p) ?c
                                 @ widget_render_draw (widget_heap ?s2) ?c p r
                                 @ rotate_to_wibox (wibox_heap ?s1 p) ?c\<rparr>)"
    unfolding widget_render_unfold [of p s] Let_def st len
    using ok r(1) by (simp add: wb1 flattened_def [symmetric])
  then show ?thesis
    unfolding req by (intro exI conjI, assumption) simp
qed

text \<open>
  Claim C4. When \<^verbatim>\<open>widget_geometries\<close> reports failure,
  \<^verbatim>\<open>widget_render\<close> returns at once: the only call made is the call of the
  policy that failed, so nothing is composited, filled, drawn or rotated, and no surface
  is changed, the dirty flag of the rendered surface included.
\<close>

theorem widget_render_aborts_on_failure:
  "\<not> fst (widget_geometries p s) \<Longrightarrow>
   \<exists>s' f args.
     widget_render p s = Aborted s'
     \<and> trace s' = trace s @ [Lua_call f args]
     \<and> wibox_heap s' = wibox_heap s
     \<and> need_update (wibox_heap s' p) = need_update (wibox_heap s p)
     \<and> widget_heap s' = widget_heap s"
proof -
  assume nf: "\<not> fst (widget_geometries p s)"
  have "has_policy (wibox_heap s p)"
  proof (rule ccontr)
    assume "\<not> has_policy (wibox_heap s p)"
    then have "fst (widget_geometries p s)"
      by (simp add: widget_geometries_default)
    with nf show False by simp
  qed
  then obtain t f where t: "widgets_table (wibox_heap s p) = Some t"
    and f: "table_get t (LString ''layout'') = LFunction f"
    unfolding has_policy_iff by blast
  note e = widget_geometries_policy [OF t f]
  have r: "widget_render p s = Aborted (snd (widget_geometries p s))"
    using nf by (simp add: widget_render_unfold Let_def)
  have "\<exists>args. trace (snd (widget_geometries p s)) = trace s @ [Lua_call f args]"
    by (simp add: e Let_def split: option.splits)
  moreover have "wibox_heap (snd (widget_geometries p s)) = wibox_heap s"
    by (simp add: e Let_def split: option.splits)
  moreover have "widget_heap (snd (widget_geometries p s)) = widget_heap s"
    by (simp add: e Let_def split: option.splits)
  ultimately show ?thesis
    using r by auto
qed

text \<open>
  Claim C5. A render that completes calls the draw capability exactly for the nodes
  whose widget is visible: the draw calls made are, in the order of the node collection,
  one call with (context, geometry of the node, surface) for every node of the collection
  whose widget is visible, and none for a node whose widget is invisible.
\<close>

theorem widget_render_draws_visible:
  "widget_render p s = Rendered s' \<Longrightarrow>
   take (length (trace s)) (trace s') = trace s
   \<and> widget_heap s' = widget_heap s
   \<and> filter is_widget_draw (drop (length (trace s)) (trace s')) =
       map (\<lambda>n. Widget_draw (widget n) (ctx (wibox_heap s p)) (widget_node_t.geometry n) p)
         (filter (\<lambda>n. isvisible (widget_heap s (widget n))) (widgets (wibox_heap s' p)))"
proof -
  assume "widget_render p s = Rendered s'"
  from widget_render_Rendered [OF this] obtain calls evs ws1 where
    tr: "trace s' = trace s @ calls @ evs
           @ draw_background (wibox_heap s p) (ctx (wibox_heap s p))
           @ widget_render_draw (widget_heap s) (ctx (wibox_heap s p)) p ws1
           @ rotate_to_wibox (wibox_heap s p) (ctx (wibox_heap s p))"
    and calls: "\<forall>e \<in> set calls. is_lua_call e"
    and evs: "\<forall>e \<in> set evs. \<not> is_widget_draw e \<and> \<not> is_lua_call e"
    and ws1: "widgets (wibox_heap s' p) = ws1"
    and wh: "widget_heap s' = widget_heap s"
    by blast
  have f1: "filter is_widget_draw calls = []"
    using calls by (intro filter_none) (auto dest: lua_call_no_draw)
  have f2: "filter is_widget_draw evs = []"
    using evs by (intro filter_none) auto
  have f3: "filter is_widget_draw (draw_background (wibox_heap s p) (ctx (wibox_heap s p))) = []"
    by (intro filter_none draw_background_no_draw)
  have f4: "filter is_widget_draw (rotate_to_wibox (wibox_heap s p) (ctx (wibox_heap s p))) = []"
    by (intro filter_none rotate_to_wibox_no_draw)
  have f5: "filter is_widget_draw
              (widget_render_draw (widget_heap s) (ctx (wibox_heap s p)) p ws1)
            = widget_render_draw (widget_heap s) (ctx (wibox_heap s p)) p ws1"
    by (intro filter_all) (auto simp: widget_render_draw_eq is_widget_draw_def)
  have "filter is_widget_draw (drop (length (trace s)) (trace s'))
          = widget_render_draw (widget_heap s) (ctx (wibox_heap s p)) p ws1"
    unfolding tr by (simp add: f1 f2 f3 f4 f5)
  moreover have "take (length (trace s)) (trace s') = trace s"
    unfolding tr by simp
  ultimately show ?thesis
    using wh ws1 by (simp add: widget_render_draw_eq)
qed

text \<open>
  Claim C6. When the background colour of the surface is fully opaque
  (\<open>alpha = 0xFFFF\<close>), a render that completes makes, after the call of the policy if
  there is one, exactly these calls: the fill of the background rectangle, the draw calls
  of the visible nodes, and the final rotation of the context into the pixmap of the
  surface. The desktop background is not composited: there is no query of the root
  pixmap, no copy, no rotation other than the final one, and the background image is not
  drawn.
\<close>

theorem widget_render_opaque_skips_root:
  "alpha (bg (ctx (wibox_heap s p))) = 0xffff \<Longrightarrow>
   widget_render p s = Rendered s' \<Longrightarrow>
   (\<exists>calls.
      trace s' = trace s @ calls
        @ [Draw_rectangle
             \<lparr>x = 0, y = 0, width = draw_context_t.width (ctx (wibox_heap s p)),
              height = draw_context_t.height (ctx (wibox_heap s p))\<rparr>
             True (bg (ctx (wibox_heap s p)))]
        @ map (\<lambda>n. Widget_draw (widget n) (ctx (wibox_heap s p)) (widget_node_t.geometry n) p)
            (filter (\<lambda>n. isvisible (widget_heap s (widget n))) (widgets (wibox_heap s' p)))
        @ rotate_to_wibox (wibox_heap s p) (ctx (wibox_heap s p))
      \<and> (\<forall>e \<in> set calls. is_lua_call e))
   \<and> (\<forall>e \<in> set (drop (length (trace s)) (trace s')).
         \<not> is_root_query e \<and> \<not> is_copy_area e \<and> \<not> is_draw_image e
         \<and> (is_draw_rotate e \<longrightarrow>
               e \<in> set (rotate_to_wibox (wibox_heap s p) (ctx (wibox_heap s p)))))"
proof -
  assume a: "alpha (bg (ctx (wibox_heap s p))) = 0xffff"
    and "widget_render p s = Rendered s'"
  from widget_render_Rendered [OF this(2)] a obtain calls ws1 where
    tr: "trace s' = trace s @ calls
           @ draw_background (wibox_heap s p) (ctx (wibox_heap s p))
           @ widget_render_draw (widget_heap s) (ctx (wibox_heap s p)) p ws1
           @ rotate_to_wibox (wibox_heap s p) (ctx (wibox_heap s p))"
    and calls: "\<forall>e \<in> set calls. is_lua_call e"
    and ws1: "widgets (wibox_heap s' p) = ws1"
    by auto
  let ?rect = "Draw_rectangle
             \<lparr>x = 0, y = 0, width = draw_context_t.width (ctx (wibox_heap s p)),
              height = draw_context_t.height (ctx (wibox_heap s p))\<rparr>
             True (bg (ctx (wibox_heap s p)))"
  let ?draws = "map (\<lambda>n. Widget_draw (widget n) (ctx (wibox_heap s p))
                           (widget_node_t.geometry n) p)
            (filter (\<lambda>n. isvisible (widget_heap s (widget n))) (widgets (wibox_heap s' p)))"
  let ?rot = "rotate_to_wibox (wibox_heap s p) (ctx (wibox_heap s p))"
  have tr': "trace s' = trace s @ calls @ [?rect] @ ?draws @ ?rot"
    unfolding tr by (simp add: draw_background_opaque [OF a] widget_render_draw_eq ws1)
  have new: "drop (length (trace s)) (trace s') = calls @ [?rect] @ ?draws @ ?rot"
    unfolding tr' by simp
  have "\<not> is_root_query e \<and> \<not> is_copy_area e \<and> \<not> is_draw_image e
          \<and> (is_draw_rotate e \<longrightarrow> e \<in> set ?rot)"
    if "e \<in> set (calls @ [?rect] @ ?draws @ ?rot)" for e
  proof -
    from that consider "e \<in> set calls" | "e = ?rect" | "e \<in> set ?draws" | "e \<in> set ?rot"
      by auto
    then show ?thesis
    proof cases
      case 1
      with calls have "is_lua_call e" by blast
      then show ?thesis
        by (cases e)
          (auto simp: is_lua_call_def is_root_query_def is_copy_area_def is_draw_image_def
             is_draw_rotate_def)
    next
      case 2
      then show ?thesis
        by (simp add: is_root_query_def is_copy_area_def is_draw_image_def is_draw_rotate_def)
    next
      case 3
      then show ?thesis
        by (auto simp: is_root_query_def is_copy_area_def is_draw_image_def is_draw_rotate_def)
    next
      case 4
      then show ?thesis
        by (cases "orientation (wibox_heap s p)")
          (auto simp: rotate_to_wibox_def is_root_query_def is_copy_area_def
             is_draw_image_def)
    qed
  qed
  with new tr' calls show ?thesis by auto
qed

subsection \<open>The scenarios, rendered\<close>

lemma scenario_opaque_geometries:
  "widget_geometries 0 scenario_opaque
   = (True, scenario_opaque
       \<lparr>wibox_heap := (\<lambda>q. scenario_wibox South 0xffff (Some scenario_table) [])
           (0 := scenario_wibox South 0xffff (Some scenario_table)
                   [\<lparr>widget = 1, widget_node_t.geometry = area_zero\<rparr>,
                    \<lparr>widget = 3, widget_node_t.geometry = area_zero\<rparr>]),
         stack := [LTable [(LNumber 1, area_value \<lparr>x = 0, y = 0, width = 40, height = 20\<rparr>),
               (LNumber 2, area_value \<lparr>x = 0, y = 0, width = 40, height = 20\<rparr>)],
              LTable scenario_table]\<rparr>)"
proof -
  let ?wb = "scenario_wibox South 0xffff (Some scenario_table) []"
  let ?s = "scenario_state (\<lambda>q. ?wb)"
  have h: "wibox_heap ?s 0 = ?wb" "widget_heap ?s = scenario_widgets" "wibox_heap ?s = (\<lambda>q. ?wb)"
     "stack ?s = []"
    by (simp_all add: scenario_state_def)
  have np: "\<not> has_policy (wibox_heap ?s 0)"
    unfolding h by (simp add: has_policy_def scenario_wibox_def table_get_def scenario_table_def)
  have fl: "flattened ?wb = [\<lparr>widget = 1, widget_node_t.geometry = area_zero\<rparr>,
                             \<lparr>widget = 3, widget_node_t.geometry = area_zero\<rparr>]"
    by (simp add: flattened_def scenario_wibox_def scenario_table_def)
  have wt: "widgets_table ?wb = Some scenario_table"
    by (simp add: scenario_wibox_def)
  have up: "?wb\<lparr>widgets := ws\<rparr> = scenario_wibox South 0xffff (Some scenario_table) ws" for ws
    by (simp add: scenario_wibox_def)
  have dg: "default_geometry ?wb (scenario_widgets a) = \<lparr>x = 0, y = 0, width = 40, height = 20\<rparr>" for a
    by (simp add: default_geometry_def scenario_wibox_def scenario_widgets_def scenario_widget_def)
  show ?thesis
    unfolding scenario_opaque_def widget_geometries_default [OF np] h fl wt up
    by (simp add: dg)
qed

lemma table_len_two: "a \<noteq> LNil \<Longrightarrow> b \<noteq> LNil \<Longrightarrow> table_len [(LNumber 1, a), (LNumber 2, b)] = 2"
  by (simp add: table_len_def table_get_def upt_rec)

lemma read_back_two: "widget_render_geometries wb
     (LTable [(LNumber 1, area_value a), (LNumber 2, area_value b)]) 0 2
     [\<lparr>widget = w1, widget_node_t.geometry = g1\<rparr>,
      \<lparr>widget = w2, widget_node_t.geometry = g2\<rparr>]
    = Some [\<lparr>widget = w1, widget_node_t.geometry = a\<rparr>,
      \<lparr>widget = w2, widget_node_t.geometry = b\<rparr>]"
  by (cases a; cases b) (simp add: numeral_2_eq_2 table_get_def area_value_def luaA_getopt_number_def)

lemma scenario_opaque_render:
  "widget_render 0 scenario_opaque =
     Rendered (scenario_opaque
       \<lparr>wibox_heap := (\<lambda>q. scenario_wibox South 0xffff (Some scenario_table) [])
           (0 := scenario_wibox South 0xffff (Some scenario_table)
                   [\<lparr>widget = 1, widget_node_t.geometry = \<lparr>x = 0, y = 0, width = 40, height = 20\<rparr>\<rparr>,
                    \<lparr>widget = 3, widget_node_t.geometry = \<lparr>x = 0, y = 0, width = 40, height = 20\<rparr>\<rparr>]),
         stack := [LTable scenario_table],
         trace := [Draw_rectangle \<lparr>x = 0, y = 0, width = 20, height = 100\<rparr> True
                     \<lparr>pixel = 0, alpha = 0xffff\<rparr>,
                   Widget_draw 1 (scenario_ctx 0xffff) \<lparr>x = 0, y = 0, width = 40, height = 20\<rparr> 0,
                   Draw_rotate 11 12 20 100 100 20 Plus_M_PI_2 100 0]\<rparr>)"
proof -
  let ?wb = "scenario_wibox South 0xffff (Some scenario_table)"
  have c: "ctx (wibox_heap scenario_opaque 0) = scenario_ctx 0xffff"
    by (simp add: scenario_opaque_def scenario_state_def scenario_wibox_def)
  have a: "alpha (bg (scenario_ctx 0xffff)) = 0xffff"
    by (simp add: scenario_ctx_def)
  have fl: "flattened (?wb ws) = [\<lparr>widget = 1, widget_node_t.geometry = area_zero\<rparr>,
                             \<lparr>widget = 3, widget_node_t.geometry = area_zero\<rparr>]" for ws
    by (simp add: flattened_def scenario_wibox_def scenario_table_def)
  have up: "(?wb ws)\<lparr>widgets := ws1\<rparr> = ?wb ws1" for ws ws1
    by (simp add: scenario_wibox_def)
  have bgd: "draw_background (?wb ws) (scenario_ctx 0xffff)
     = [Draw_rectangle \<lparr>x = 0, y = 0, width = 20, height = 100\<rparr> True \<lparr>pixel = 0, alpha = 0xffff\<rparr>]" for ws
    by (simp add: draw_background_opaque [OF a]) (simp add: scenario_ctx_def)
  have rot: "rotate_to_wibox (?wb ws) (scenario_ctx 0xffff)
     = [Draw_rotate 11 12 20 100 100 20 Plus_M_PI_2 100 0]" for ws
    by (simp add: rotate_to_wibox_def scenario_wibox_def scenario_ctx_def)
  have dr: "widget_render_draw scenario_widgets cc 0
      [\<lparr>widget = 1, widget_node_t.geometry = g1\<rparr>, \<lparr>widget = 3, widget_node_t.geometry = g2\<rparr>]
     = [Widget_draw 1 cc g1 0]" for cc g1 g2
    by (simp add: scenario_widgets_def scenario_widget_def)
  show ?thesis
    unfolding widget_render_unfold [of 0 scenario_opaque] c Let_def a
    unfolding scenario_opaque_geometries
    unfolding scenario_opaque_def
    by (simp add: fl up lua_at_def stack_pos_def lua_objlen_def table_len_two
          area_value_not_nil read_back_two bgd rot lua_pop_def)
      (simp add: scenario_state_def scenario_widgets_def scenario_widget_def)
qed

theorem widget_render_draws_visible_witness:
  "\<exists>s'. widget_render 0 scenario_opaque = Rendered s'
     \<and> map widget (widgets (wibox_heap s' 0)) = [1, 3]
     \<and> \<not> isvisible (widget_heap s' 3)
     \<and> filter is_widget_draw (trace s') =
         [Widget_draw 1 (scenario_ctx 0xffff) \<lparr>x = 0, y = 0, width = 40, height = 20\<rparr> 0]"
proof -
  from scenario_opaque_render obtain s' where
    r: "widget_render 0 scenario_opaque = Rendered s'"
    and w: "widgets (wibox_heap s' 0) =
              [\<lparr>widget = 1, widget_node_t.geometry = \<lparr>x = 0, y = 0, width = 40, height = 20\<rparr>\<rparr>,
               \<lparr>widget = 3, widget_node_t.geometry = \<lparr>x = 0, y = 0, width = 40, height = 20\<rparr>\<rparr>]"
    by (simp add: scenario_wibox_def)
  have i: "trace scenario_opaque = []" "widget_heap scenario_opaque = scenario_widgets"
    "ctx (wibox_heap scenario_opaque 0) = scenario_ctx 0xffff"
    by (simp_all add: scenario_opaque_def scenario_state_def scenario_wibox_def)
  have v: "isvisible (scenario_widgets a) \<longleftrightarrow> a \<noteq> 3" for a
    by (simp add: scenario_widgets_def scenario_widget_def)
  from widget_render_draws_visible [OF r, unfolded i w]
  have "widget_heap s' = scenario_widgets"
    and "filter is_widget_draw (trace s') =
         [Widget_draw 1 (scenario_ctx 0xffff) \<lparr>x = 0, y = 0, width = 40, height = 20\<rparr> 0]"
    by (simp_all add: v)
  with r w show ?thesis by (simp add: v)
qed

theorem widget_render_opaque_skips_root_witness:
  "\<exists>s'. widget_render 0 scenario_opaque = Rendered s'
     \<and> filter is_root_query (trace s') = []
     \<and> filter is_copy_area (trace s') = []
     \<and> filter is_draw_image (trace s') = []
     \<and> filter is_draw_rotate (trace s') = [Draw_rotate 11 12 20 100 100 20 Plus_M_PI_2 100 0]"
proof -
  from scenario_opaque_render obtain s' where
    r: "widget_render 0 scenario_opaque = Rendered s'"
    and t: "trace s' =
       [Draw_rectangle \<lparr>x = 0, y = 0, width = 20, height = 100\<rparr> True
          \<lparr>pixel = 0, alpha = 0xffff\<rparr>,
        Widget_draw 1 (scenario_ctx 0xffff) \<lparr>x = 0, y = 0, width = 40, height = 20\<rparr> 0,
        Draw_rotate 11 12 20 100 100 20 Plus_M_PI_2 100 0]"
    by simp
  have a: "alpha (bg (ctx (wibox_heap scenario_opaque 0))) = 0xffff"
    by (simp add: scenario_opaque_def scenario_state_def scenario_wibox_def scenario_ctx_def)
  have i: "trace scenario_opaque = []"
    by (simp add: scenario_opaque_def scenario_state_def)
  from widget_render_opaque_skips_root [OF a r]
  have n: "\<forall>e \<in> set (trace s'). \<not> is_root_query e \<and> \<not> is_copy_area e \<and> \<not> is_draw_image e"
    by (simp add: i)
  have "filter is_root_query (trace s') = []"
    using n by (intro filter_none) blast
  moreover have "filter is_copy_area (trace s') = []"
    using n by (intro filter_none) blast
  moreover have "filter is_draw_image (trace s') = []"
    using n by (intro filter_none) blast
  moreover have "filter is_draw_rotate (trace s')
                   = [Draw_rotate 11 12 20 100 100 20 Plus_M_PI_2 100 0]"
    unfolding t by (simp add: is_draw_rotate_def)
  ultimately show ?thesis using r by blast
qed

theorem widget_render_aborts_on_failure_witness:
  "\<exists>s' f args. widget_render 0 scenario_failing = Aborted s'
     \<and> trace s' = [Lua_call f args]
     \<and> \<not> need_update (wibox_heap s' 0)"
proof -
  have t: "widgets_table (wibox_heap scenario_failing 0) = Some (scenario_policy_table 0)"
    by (simp add: scenario_failing_def scenario_state_def scenario_wibox_def)
  have l: "lua_functions scenario_failing = scenario_policy"
    by (simp add: scenario_failing_def scenario_state_def)
  have nf: "\<not> fst (widget_geometries 0 scenario_failing)"
    unfolding widget_geometries_policy [OF t scenario_policy_table_layout] l
    by (simp add: scenario_policy_def Let_def)
  have i: "trace scenario_failing = []" "\<not> need_update (wibox_heap scenario_failing 0)"
    by (simp_all add: scenario_failing_def scenario_state_def scenario_wibox_def)
  from widget_render_aborts_on_failure [OF nf] i
  show ?thesis by auto
qed

subsection \<open>The property setter\<close>

lemma key_token_simps:
  "key_token (LString ''visible'') = Some A_TK_VISIBLE"
  "key_token (LString ''mouse_enter'') = Some A_TK_MOUSE_ENTER"
  "key_token (LString ''mouse_leave'') = Some A_TK_MOUSE_LEAVE"
  by (simp_all add: key_token_def a_tokenize_def)

lemma widget_invalidate_bywidget_widget_heap:
  "widget_heap (widget_invalidate_bywidget w s) = widget_heap s"
  by (simp add: widget_invalidate_bywidget_def)

text \<open>
  Claim C7. In the generic property setter, writing \<open>visible\<close> stores the boolean in
  the visibility flag and then calls \<^verbatim>\<open>widget_invalidate_bywidget\<close> on the
  widget. Writing \<open>mouse_enter\<close> or \<open>mouse_leave\<close> releases the reference to the old
  hook, acquires a reference to the new one, stores it, and returns without invalidating:
  no surface is touched.
\<close>

theorem luaA_widget_newindex_generic_keys:
  "(\<exists>s'. luaA_widget_newindex newindex (LWidget w # LString ''visible'' # LBoolean b # rest) s
            = Inr (0, s')
        \<and> s' = widget_invalidate_bywidget w
                 (s\<lparr>widget_heap := (widget_heap s)(w := (widget_heap s w)\<lparr>isvisible := b\<rparr>)\<rparr>)
        \<and> isvisible (widget_heap s' w) = b
        \<and> (\<forall>p. wibox_heap s' p =
                 (if p \<in> set (wiboxes s) \<union> titlebars (clients s)
                  then invalidated w (wibox_heap s p) else wibox_heap s p)))
   \<and> (\<exists>s'. luaA_widget_newindex newindex
              (LWidget w # LString ''mouse_enter'' # LFunction f # rest) s = Inr (0, s')
        \<and> mouse_enter (widget_heap s' w) = Some (LFunction f)
        \<and> trace s' = trace s @ [Object_unref_item w (mouse_enter (widget_heap s w)),
                                 Object_ref_item w (LFunction f)]
        \<and> wibox_heap s' = wibox_heap s)
   \<and> (\<exists>s'. luaA_widget_newindex newindex
              (LWidget w # LString ''mouse_leave'' # LFunction f # rest) s = Inr (0, s')
        \<and> mouse_leave (widget_heap s' w) = Some (LFunction f)
        \<and> trace s' = trace s @ [Object_unref_item w (mouse_leave (widget_heap s w)),
                                 Object_ref_item w (LFunction f)]
        \<and> wibox_heap s' = wibox_heap s)"
proof (intro conjI)
  let ?s1 = "s\<lparr>widget_heap := (widget_heap s)(w := (widget_heap s w)\<lparr>isvisible := b\<rparr>)\<rparr>"
  have "luaA_widget_newindex newindex (LWidget w # LString ''visible'' # LBoolean b # rest) s
          = Inr (0, widget_invalidate_bywidget w ?s1)"
    by (simp add: luaA_widget_newindex_def key_token_simps)
  moreover have "isvisible (widget_heap (widget_invalidate_bywidget w ?s1) w) = b"
    by (simp add: widget_invalidate_bywidget_widget_heap)
  moreover have "\<forall>p. wibox_heap (widget_invalidate_bywidget w ?s1) p =
                 (if p \<in> set (wiboxes s) \<union> titlebars (clients s)
                  then invalidated w (wibox_heap s p) else wibox_heap s p)"
    by (simp add: widget_invalidate_bywidget_heap)
  ultimately show "\<exists>s'. luaA_widget_newindex newindex
            (LWidget w # LString ''visible'' # LBoolean b # rest) s = Inr (0, s')
        \<and> s' = widget_invalidate_bywidget w ?s1
        \<and> isvisible (widget_heap s' w) = b
        \<and> (\<forall>p. wibox_heap s' p =
                 (if p \<in> set (wiboxes s) \<union> titlebars (clients s)
                  then invalidated w (wibox_heap s p) else wibox_heap s p))"
    by blast
next
  show "\<exists>s'. luaA_widget_newindex newindex
              (LWidget w # LString ''mouse_enter'' # LFunction f # rest) s = Inr (0, s')
        \<and> mouse_enter (widget_heap s' w) = Some (LFunction f)
        \<and> trace s' = trace s @ [Object_unref_item w (mouse_enter (widget_heap s w)),
                                 Object_ref_item w (LFunction f)]
        \<and> wibox_heap s' = wibox_heap s"
    by (simp add: luaA_widget_newindex_def key_token_simps)
next
  show "\<exists>s'. luaA_widget_newindex newindex
              (LWidget w # LString ''mouse_leave'' # LFunction f # rest) s = Inr (0, s')
        \<and> mouse_leave (widget_heap s' w) = Some (LFunction f)
        \<and> trace s' = trace s @ [Object_unref_item w (mouse_leave (widget_heap s w)),
                                 Object_ref_item w (LFunction f)]
        \<and> wibox_heap s' = wibox_heap s"
    by (simp add: luaA_widget_newindex_def key_token_simps)
qed

theorem luaA_widget_newindex_generic_keys_witness:
  "(\<exists>s'. luaA_widget_newindex (\<lambda>q. None) [LWidget 2, LString ''visible'', LBoolean False]
            (scenario_state scenario_surfaces) = Inr (0, s')
        \<and> \<not> isvisible (widget_heap s' 2)
        \<and> need_update (wibox_heap s' 0))
   \<and> (\<exists>s'. luaA_widget_newindex (\<lambda>q. None) [LWidget 2, LString ''mouse_enter'', LFunction 4]
            (scenario_state scenario_surfaces) = Inr (0, s')
        \<and> mouse_enter (widget_heap s' 2) = Some (LFunction 4)
        \<and> trace s' = [Object_unref_item 2 None, Object_ref_item 2 (LFunction 4)]
        \<and> \<not> need_update (wibox_heap s' 0))"
proof -
  let ?s = "scenario_state scenario_surfaces"
  have m: "(0 :: nat) \<in> set (wiboxes ?s) \<union> titlebars (clients ?s)"
    by (simp add: scenario_state_def)
  have h: "wibox_heap ?s = scenario_surfaces" "trace ?s = []"
    "mouse_enter (widget_heap ?s 2) = None"
    by (simp_all add: scenario_state_def scenario_widgets_def scenario_widget_def)
  have i: "need_update (invalidated 2 (scenario_surfaces 0))"
    "\<not> need_update (scenario_surfaces 0)"
    by (simp_all add: invalidated_def scenario_surfaces_def scenario_wibox_def
          scenario_nodes_def)
  note t = luaA_widget_newindex_generic_keys [of "\<lambda>q. None" 2 False "[]" ?s 4]
  from t obtain s1 where s1:
    "luaA_widget_newindex (\<lambda>q. None) [LWidget 2, LString ''visible'', LBoolean False] ?s
       = Inr (0, s1)"
    "isvisible (widget_heap s1 2) = False"
    "\<forall>p. wibox_heap s1 p =
       (if p \<in> set (wiboxes ?s) \<union> titlebars (clients ?s)
        then invalidated 2 (wibox_heap ?s p) else wibox_heap ?s p)"
    by blast
  from s1(3) m have "wibox_heap s1 0 = invalidated 2 (scenario_surfaces 0)"
    by (simp add: h)
  with i have "need_update (wibox_heap s1 0)" by simp
  with s1 have a: "\<exists>s'. luaA_widget_newindex (\<lambda>q. None)
            [LWidget 2, LString ''visible'', LBoolean False] ?s = Inr (0, s')
        \<and> \<not> isvisible (widget_heap s' 2) \<and> need_update (wibox_heap s' 0)"
    by blast
  from t obtain s2 where s2:
    "luaA_widget_newindex (\<lambda>q. None) [LWidget 2, LString ''mouse_enter'', LFunction 4] ?s
       = Inr (0, s2)"
    "mouse_enter (widget_heap s2 2) = Some (LFunction 4)"
    "trace s2 = trace ?s @ [Object_unref_item 2 (mouse_enter (widget_heap ?s 2)),
                            Object_ref_item 2 (LFunction 4)]"
    "wibox_heap s2 = wibox_heap ?s"
    by blast
  from s2(3,4) i(2) have "trace s2 = [Object_unref_item 2 None, Object_ref_item 2 (LFunction 4)]"
    and "\<not> need_update (wibox_heap s2 0)"
    by (simp_all add: h)
  with s2(1,2) have b: "\<exists>s'. luaA_widget_newindex (\<lambda>q. None)
            [LWidget 2, LString ''mouse_enter'', LFunction 4] ?s = Inr (0, s')
        \<and> mouse_enter (widget_heap s' 2) = Some (LFunction 4)
        \<and> trace s' = [Object_unref_item 2 None, Object_ref_item 2 (LFunction 4)]
        \<and> \<not> need_update (wibox_heap s' 0)"
    by blast
  from a b show ?thesis by blast
qed

subsection \<open>The factory\<close>

lemma constructor_of_tokens:
  "(case a_tokenize tname of
      A_TK_TEXTBOX \<Rightarrow> Some widget_textbox
    | A_TK_PROGRESSBAR \<Rightarrow> Some widget_progressbar
    | A_TK_GRAPH \<Rightarrow> Some widget_graph
    | A_TK_SYSTRAY \<Rightarrow> Some widget_systray
    | A_TK_IMAGEBOX \<Rightarrow> Some widget_imagebox
    | _ \<Rightarrow> None) = constructor_of tname"
  by (simp add: a_tokenize_def constructor_of_def)

lemma constructor_of_closed:
  "constructor_of tname \<noteq> None \<longleftrightarrow>
     tname \<in> Some ` {''textbox'', ''progressbar'', ''graph'', ''systray'', ''imagebox''}"
  by (auto simp: constructor_of_def)

lemma luaA_widget_new_known:
  assumes "luaA_getopt_lstring kvs ''type'' None = Inr tname"
    and "constructor_of tname = Some c"
  shows "luaA_widget_new construct (cls # LTable kvs # rest) s =
     Inr (1, s\<lparr>widget_heap := (widget_heap s)
                  (next_widget s := (construct c widget_cleared)\<lparr>type := Some c, isvisible := True\<rparr>),
               stack := LWidget (next_widget s) # stack s,
               next_widget := Suc (next_widget s)\<rparr>)"
  using assms
  by (simp add: luaA_widget_new_def constructor_of_tokens widget_new_def Let_def)

lemma luaA_widget_new_unknown:
  assumes "luaA_getopt_lstring kvs ''type'' None = Inr tname"
    and "constructor_of tname = None"
  shows "luaA_widget_new construct (cls # LTable kvs # rest) s =
     Inr (0, s\<lparr>trace := trace s @ [Lua_warn tname]\<rparr>)"
  using assms
  by (simp add: luaA_widget_new_def constructor_of_tokens Let_def)

text \<open>
  Claim C8. \<^verbatim>\<open>luaA_widget_new\<close> constructs a widget exactly for the type names
  \<open>textbox\<close>, \<open>progressbar\<close>, \<open>graph\<close>, \<open>systray\<close> and \<open>imagebox\<close>: it
  returns one value, the new widget, whose type is the constructor of the name and whose
  visibility flag is true whatever the constructor did, and it warns of nothing. For any
  other type name, and for a missing one, it returns no value, allocates no widget, and
  emits exactly one warning.
\<close>

theorem luaA_widget_new_closed_set:
  "luaA_getopt_lstring kvs ''type'' None = Inr tname \<Longrightarrow>
   (constructor_of tname \<noteq> None \<longleftrightarrow>
      tname \<in> Some ` {''textbox'', ''progressbar'', ''graph'', ''systray'', ''imagebox''})
   \<and> (\<forall>c. constructor_of tname = Some c \<longrightarrow>
         (\<exists>s'. luaA_widget_new construct (cls # LTable kvs # rest) s = Inr (1, s')
            \<and> stack s' = LWidget (next_widget s) # stack s
            \<and> type (widget_heap s' (next_widget s)) = Some c
            \<and> isvisible (widget_heap s' (next_widget s))
            \<and> (\<forall>q. q \<noteq> next_widget s \<longrightarrow> widget_heap s' q = widget_heap s q)
            \<and> trace s' = trace s))
   \<and> (constructor_of tname = None \<longrightarrow>
         (\<exists>s'. luaA_widget_new construct (cls # LTable kvs # rest) s = Inr (0, s')
            \<and> trace s' = trace s @ [Lua_warn tname]
            \<and> stack s' = stack s
            \<and> widget_heap s' = widget_heap s
            \<and> next_widget s' = next_widget s))"
proof (intro conjI allI impI)
  show "constructor_of tname \<noteq> None \<longleftrightarrow>
      tname \<in> Some ` {''textbox'', ''progressbar'', ''graph'', ''systray'', ''imagebox''}"
    by (rule constructor_of_closed)
next
  fix c
  assume "luaA_getopt_lstring kvs ''type'' None = Inr tname"
    and "constructor_of tname = Some c"
  from luaA_widget_new_known [OF this, of construct cls rest s]
  show "\<exists>s'. luaA_widget_new construct (cls # LTable kvs # rest) s = Inr (1, s')
            \<and> stack s' = LWidget (next_widget s) # stack s
            \<and> type (widget_heap s' (next_widget s)) = Some c
            \<and> isvisible (widget_heap s' (next_widget s))
            \<and> (\<forall>q. q \<noteq> next_widget s \<longrightarrow> widget_heap s' q = widget_heap s q)
            \<and> trace s' = trace s"
    by simp
next
  assume "luaA_getopt_lstring kvs ''type'' None = Inr tname"
    and "constructor_of tname = None"
  from luaA_widget_new_unknown [OF this, of construct cls rest s]
  show "\<exists>s'. luaA_widget_new construct (cls # LTable kvs # rest) s = Inr (0, s')
            \<and> trace s' = trace s @ [Lua_warn tname]
            \<and> stack s' = stack s
            \<and> widget_heap s' = widget_heap s
            \<and> next_widget s' = next_widget s"
    by simp
qed

theorem luaA_widget_new_closed_set_witness:
  "(\<exists>s'. luaA_widget_new (\<lambda>c w. w\<lparr>isvisible := False\<rparr>)
            [LNil, LTable [(LString ''type'', LString ''bogus'')]] scenario_opaque = Inr (0, s')
        \<and> trace s' = [Lua_warn (Some ''bogus'')]
        \<and> stack s' = []
        \<and> next_widget s' = 10)
   \<and> (\<exists>s'. luaA_widget_new (\<lambda>c w. w\<lparr>isvisible := False\<rparr>)
            [LNil, LTable [(LString ''type'', LString ''textbox'')]] scenario_opaque = Inr (1, s')
        \<and> stack s' = [LWidget 10]
        \<and> type (widget_heap s' 10) = Some widget_textbox
        \<and> isvisible (widget_heap s' 10)
        \<and> trace s' = [])"
proof -
  have i: "trace scenario_opaque = []" "stack scenario_opaque = []"
    "next_widget scenario_opaque = 10"
    by (simp_all add: scenario_opaque_def scenario_state_def)
  have n: "luaA_getopt_lstring [(LString ''type'', LString nm)] ''type'' None = Inr (Some nm)" for nm
    by (simp add: luaA_getopt_lstring_def table_get_def)
  have b: "constructor_of (Some ''bogus'') = None"
    and t: "constructor_of (Some ''textbox'') = Some widget_textbox"
    by (simp_all add: constructor_of_def)
  from luaA_widget_new_closed_set
         [OF n, of "''bogus''" "\<lambda>c w. w\<lparr>isvisible := False\<rparr>" LNil "[]" scenario_opaque]
  have "\<exists>s'. luaA_widget_new (\<lambda>c w. w\<lparr>isvisible := False\<rparr>)
            [LNil, LTable [(LString ''type'', LString ''bogus'')]] scenario_opaque = Inr (0, s')
        \<and> trace s' = [Lua_warn (Some ''bogus'')]
        \<and> stack s' = []
        \<and> next_widget s' = 10"
    by (simp add: b i) blast
  moreover
  from luaA_widget_new_closed_set
         [OF n, of "''textbox''" "\<lambda>c w. w\<lparr>isvisible := False\<rparr>" LNil "[]" scenario_opaque]
  have "\<exists>s'. luaA_widget_new (\<lambda>c w. w\<lparr>isvisible := False\<rparr>)
            [LNil, LTable [(LString ''type'', LString ''textbox'')]] scenario_opaque = Inr (1, s')
        \<and> stack s' = [LWidget 10]
        \<and> type (widget_heap s' 10) = Some widget_textbox
        \<and> isvisible (widget_heap s' 10)
        \<and> trace s' = []"
    by (simp add: t i) blast
  ultimately show ?thesis by blast
qed

end
